theory Spec2Isabelle
  imports Complex_Main "HOL-Library.Word" "HOL-Library.Signed_Division" "HOL-Library.Sublist"
begin

section \<open>Machine integers and protocol types\<close>

text \<open>
  Go's \<open>int64\<close> (and \<open>int\<close> on the 64-bit targets the tool is built for) is a 64-bit
  word read in two's complement by \<open>sint\<close>; \<open>+\<close>, \<open>-\<close> and \<open>*\<close> wrap around as in Go.
  \<open>abi.ChainEpoch\<close> and \<open>time.Duration\<close> are \<open>int64\<close>; \<open>abi.SectorNumber\<close> is
  \<open>uint64\<close>, the same 64 bits read by \<open>unat\<close>. \<open>big.Int\<close> is \<open>int\<close>.
\<close>

type_synonym int64 = "64 word"
type_synonym ChainEpoch = "64 word"
type_synonym Duration = "64 word"
type_synonym SectorNumber = "64 word"

text \<open>Go's \<open>/\<close> on \<open>int64\<close> truncates towards zero.\<close>

definition div64 :: "int64 \<Rightarrow> int64 \<Rightarrow> int64" where
  "div64 a b = word_of_int (sint a sdiv sint b)"

text \<open>
  \<open>big.Div\<close> of go-state-types is \<open>math/big\<close>'s Euclidean division (remainder never
  negative); \<open>big.Int.Int64\<close> keeps the low 64 bits.
\<close>

definition big_Div :: "int \<Rightarrow> int \<Rightarrow> int" where
  "big_Div a b = (if 0 < b then a div b else - (a div (- b)))"

definition big_Int64 :: "int \<Rightarrow> int64" where
  "big_Int64 x = word_of_int x"

section \<open>Time and epochs (pkg/utils/utils.go)\<close>

text \<open>
  A \<open>time.Time\<close> without monotonic reading is an instant, here the number of
  nanoseconds since a fixed reference instant. \<open>Add\<close> moves it by a Duration;
  \<open>Sub\<close> saturates at the largest and smallest Duration, as the Go library documents.
\<close>

type_synonym Time = int

definition EpochDuration :: Duration where
  "EpochDuration = 30 * 1000000000"

definition Time_Add :: "Time \<Rightarrow> Duration \<Rightarrow> Time" where
  "Time_Add t d = t + sint d"

definition Time_Sub :: "Time \<Rightarrow> Time \<Rightarrow> Duration" where
  "Time_Sub t u =
     (let d = t - u in
      if 9223372036854775807 < d then 9223372036854775807
      else if d < - 9223372036854775808 then - 9223372036854775808
      else word_of_int d)"

definition Time_Before :: "Time \<Rightarrow> Time \<Rightarrow> bool" where
  "Time_Before t u = (t < u)"

definition EpochToTime :: "ChainEpoch \<Rightarrow> Time \<Rightarrow> Time" where
  "EpochToTime epoch genesisTime = Time_Add genesisTime (epoch * EpochDuration)"

definition TimeToEpoch :: "Time \<Rightarrow> Time \<Rightarrow> ChainEpoch" where
  "TimeToEpoch t genesisTime =
     (if Time_Before t genesisTime then 0
      else (let duration = Time_Sub t genesisTime in div64 duration EpochDuration))"

section \<open>Sector-number parsing (pkg/utils/utils.go)\<close>

subsection \<open>The string functions of the Go library that the parser calls\<close>

text \<open>\<open>strings.Split\<close> with a one-byte separator: always at least one piece.\<close>

fun Split :: "char \<Rightarrow> string \<Rightarrow> string list" where
  "Split sep [] = [[]]"
| "Split sep (c # cs) =
     (let rest = Split sep cs in
      if c = sep then [] # rest else (c # hd rest) # tl rest)"

definition Contains :: "string \<Rightarrow> char \<Rightarrow> bool" where
  "Contains s c = (c \<in> set s)"

text \<open>
  \<open>strings.TrimSpace\<close> removes leading and trailing white space as Unicode defines it:
  the six ASCII characters, and the UTF-8 encodings of U+0085, U+00A0, U+1680,
  U+2000 to U+200A, U+2028, U+2029, U+202F, U+205F and U+3000.
\<close>

definition asciiSpace :: "char \<Rightarrow> bool" where
  "asciiSpace c = (c \<in> set [CHR 0x09, CHR 0x0A, CHR 0x0B, CHR 0x0C, CHR 0x0D, CHR 0x20])"

definition unicodeSpaces :: "string list" where
  "unicodeSpaces =
     [[CHR 0xC2, CHR 0x85], [CHR 0xC2, CHR 0xA0], [CHR 0xE1, CHR 0x9A, CHR 0x80],
      [CHR 0xE2, CHR 0x80, CHR 0x80], [CHR 0xE2, CHR 0x80, CHR 0x81],
      [CHR 0xE2, CHR 0x80, CHR 0x82], [CHR 0xE2, CHR 0x80, CHR 0x83],
      [CHR 0xE2, CHR 0x80, CHR 0x84], [CHR 0xE2, CHR 0x80, CHR 0x85],
      [CHR 0xE2, CHR 0x80, CHR 0x86], [CHR 0xE2, CHR 0x80, CHR 0x87],
      [CHR 0xE2, CHR 0x80, CHR 0x88], [CHR 0xE2, CHR 0x80, CHR 0x89],
      [CHR 0xE2, CHR 0x80, CHR 0x8A], [CHR 0xE2, CHR 0x80, CHR 0xA8],
      [CHR 0xE2, CHR 0x80, CHR 0xA9], [CHR 0xE2, CHR 0x80, CHR 0xAF],
      [CHR 0xE2, CHR 0x81, CHR 0x9F], [CHR 0xE3, CHR 0x80, CHR 0x80]]"

text \<open>The number of bytes of the white-space character that \<open>s\<close> starts with, 0 if none.\<close>

definition spacePrefix :: "string list \<Rightarrow> string \<Rightarrow> nat" where
  "spacePrefix encs s =
     (case s of
        [] \<Rightarrow> 0
      | c # cs \<Rightarrow>
          if asciiSpace c then 1
          else (case find (\<lambda>p. prefix p s) encs of None \<Rightarrow> 0 | Some p \<Rightarrow> length p))"

function trimLeftFunc :: "string list \<Rightarrow> string \<Rightarrow> string" where
  "trimLeftFunc encs s =
     (if spacePrefix encs s = 0 then s else trimLeftFunc encs (drop (spacePrefix encs s) s))"
  by pat_completeness auto
termination
  by (relation "measure (\<lambda>(encs, s). length s)") (auto simp: spacePrefix_def split: list.splits)

text \<open>Trailing white space is leading white space of the reversed string.\<close>

definition TrimSpace :: "string \<Rightarrow> string" where
  "TrimSpace s =
     rev (trimLeftFunc (map rev unicodeSpaces) (rev (trimLeftFunc unicodeSpaces s)))"

text \<open>
  \<open>strconv.Atoi\<close>: an optional sign and at least one decimal digit, nothing else, and
  a value that fits \<open>int64\<close>; \<open>None\<close> stands for every error it returns.
\<close>

definition isDigit :: "char \<Rightarrow> bool" where
  "isDigit c = (48 \<le> (of_char c :: nat) \<and> (of_char c :: nat) \<le> 57)"

definition ParseUint :: "string \<Rightarrow> nat option" where
  "ParseUint s =
     (if s = [] \<or> \<not> list_all isDigit s then None
      else Some (foldl (\<lambda>n c. n * 10 + (of_char c - 48)) 0 s))"

definition Atoi :: "string \<Rightarrow> int64 option" where
  "Atoi s =
     (case s of
        [] \<Rightarrow> None
      | c # cs \<Rightarrow>
          if c = CHR ''-'' then
            (case ParseUint cs of
               None \<Rightarrow> None
             | Some un \<Rightarrow> if 9223372036854775808 < un then None else Some (- word_of_nat un))
          else
            (case ParseUint (if c = CHR ''+'' then cs else s) of
               None \<Rightarrow> None
             | Some un \<Rightarrow> if 9223372036854775808 \<le> un then None else Some (word_of_nat un)))"

subsection \<open>ParseSectorNumbers\<close>

text \<open>
  One constructor for each \<open>fmt.Errorf\<close> of the function, in the order of the source:
  "invalid range format: %s", "invalid start sector number: %s",
  "invalid end sector number: %s",
  "start sector number cannot be greater than end sector number: %d > %d",
  "invalid sector number: %s", "sector number cannot be negative: %d".
\<close>

datatype parse_error =
    InvalidRangeFormat string
  | InvalidStartSectorNumber string
  | InvalidEndSectorNumber string
  | StartGreaterThanEnd int64 int64
  | InvalidSectorNumber string
  | SectorNumberNegative int64

text \<open>
  The loop \<open>for i := start; i <= end; i++\<close> that expands a range. \<open>i++\<close> wraps
  around, so the loop need not end: \<open>None\<close> is a call that does not return.
\<close>

partial_function (option) range_loop ::
  "int64 \<Rightarrow> int64 \<Rightarrow> SectorNumber list \<Rightarrow> SectorNumber list option" where
  "range_loop i end sectorNumbers =
     (if i \<le>s end then range_loop (i + 1) end (sectorNumbers @ [i]) else Some sectorNumbers)"

text \<open>The loop over the comma-separated parts, with the list built so far.\<close>

fun parts_loop ::
  "string list \<Rightarrow> SectorNumber list \<Rightarrow> (parse_error + SectorNumber list) option" where
  "parts_loop [] sectorNumbers = Some (Inr sectorNumbers)"
| "parts_loop (p # parts) sectorNumbers =
     (let part = TrimSpace p in
      if part = [] then parts_loop parts sectorNumbers
      else if Contains part (CHR ''-'') then
        (let rangeParts = Split (CHR ''-'') part in
         if length rangeParts \<noteq> 2 then Some (Inl (InvalidRangeFormat part))
         else
           (case Atoi (TrimSpace (rangeParts ! 0)) of
              None \<Rightarrow> Some (Inl (InvalidStartSectorNumber (rangeParts ! 0)))
            | Some start \<Rightarrow>
               (case Atoi (TrimSpace (rangeParts ! 1)) of
                  None \<Rightarrow> Some (Inl (InvalidEndSectorNumber (rangeParts ! 1)))
                | Some end \<Rightarrow>
                    if end <s start then Some (Inl (StartGreaterThanEnd start end))
                    else
                      (case range_loop start end sectorNumbers of
                         None \<Rightarrow> None
                       | Some sectorNumbers' \<Rightarrow> parts_loop parts sectorNumbers'))))
      else
        (case Atoi part of
           None \<Rightarrow> Some (Inl (InvalidSectorNumber part))
         | Some num \<Rightarrow>
             if num <s 0 then Some (Inl (SectorNumberNegative num))
             else parts_loop parts (sectorNumbers @ [num])))"

definition ParseSectorNumbers :: "string \<Rightarrow> (parse_error + SectorNumber list) option" where
  "ParseSectorNumbers sectorsStr = parts_loop (Split (CHR '','') sectorsStr) []"

section \<open>Double-precision arithmetic\<close>

text \<open>
  A finite \<open>float64\<close> is the rational number it denotes. Every operation of IEEE 754
  binary64 is the exact operation followed by \<open>rnd\<close>, rounding to the nearest number
  with a 53-bit significand, ties to the even significand. Subnormal numbers and
  overflow are out of reach of the values computed here (magnitudes between
  \<open>2^-15\<close> and \<open>2^64\<close>, or zero) and are not modelled.
\<close>

text \<open>The number of binary digits of a positive integer.\<close>

function bitlen :: "int \<Rightarrow> int" where
  "bitlen n = (if 0 < n then 1 + bitlen (n div 2) else 0)"
  by pat_completeness auto
termination
  by (relation "measure nat") auto

declare bitlen.simps [simp del]

text \<open>The binary exponent of a positive number: \<open>2 ^ ilog2 x \<le> x < 2 ^ (ilog2 x + 1)\<close>.\<close>

definition ilog2 :: "rat \<Rightarrow> int" where
  "ilog2 x = (if 1 \<le> x then bitlen \<lfloor>x\<rfloor> - 1 else - bitlen (\<lceil>1 / x\<rceil> - 1))"

definition roundHalfEven :: "rat \<Rightarrow> int" where
  "roundHalfEven q =
     (let f = \<lfloor>q\<rfloor>; r = q - of_int f in
      if r < 1 / 2 then f else if 1 / 2 < r then f + 1 else if even f then f else f + 1)"

definition rnd :: "rat \<Rightarrow> rat" where
  "rnd x =
     (if x = 0 then 0
      else (let a = \<bar>x\<bar>; ulp = 2 powi (ilog2 a - 52) in
            sgn x * of_int (roundHalfEven (a / ulp)) * ulp))"

text \<open>\<open>float64(n)\<close> of an \<open>int64\<close>, and \<open>int64(x)\<close> of a float, which truncates.\<close>

definition float64_of_int64 :: "int64 \<Rightarrow> rat" where
  "float64_of_int64 n = rnd (of_int (sint n))"

definition int64_of_float64 :: "rat \<Rightarrow> int64" where
  "int64_of_float64 x = word_of_int (if 0 \<le> x then \<lfloor>x\<rfloor> else \<lceil>x\<rceil>)"

definition f64_add :: "rat \<Rightarrow> rat \<Rightarrow> rat" where
  "f64_add a b = rnd (a + b)"

definition f64_sub :: "rat \<Rightarrow> rat \<Rightarrow> rat" where
  "f64_sub a b = rnd (a - b)"

definition f64_mul :: "rat \<Rightarrow> rat \<Rightarrow> rat" where
  "f64_mul a b = rnd (a * b)"

text \<open>
  Go lets a compiler fuse \<open>x*y + z\<close> into one operation that rounds once. The arm64
  compiler and the amd64 compiler at level v3 do; the amd64 compiler at its default
  level rounds the product and the sum one after the other.
\<close>

definition f64_fma :: "rat \<Rightarrow> rat \<Rightarrow> rat \<Rightarrow> rat" where
  "f64_fma x y z = rnd (x * y + z)"

text \<open>
  Division, the one operation here whose divisor can be zero: the quotient is then
  not a number (\<open>0/0\<close>) or an infinity, which Go computes without any panic.
\<close>

datatype float64 = Finite rat | PosInf | NegInf | NaN

definition f64_div :: "rat \<Rightarrow> rat \<Rightarrow> float64" where
  "f64_div a b =
     (if b = 0 then (if a = 0 then NaN else if 0 < a then PosInf else NegInf)
      else Finite (rnd (a / b)))"

text \<open>The decimal constants of the source, as the doubles the compiler stores.\<close>

definition f64_0_0001 :: rat where
  "f64_0_0001 = 7378697629483821 / 2 ^ 66"

definition f64_0_00005 :: rat where
  "f64_0_00005 = 7378697629483821 / 2 ^ 67"

definition f64_0_1 :: rat where
  "f64_0_1 = 3602879701896397 / 2 ^ 55"

section \<open>Network parameter projection (pkg/utils/utils.go)\<close>

record FilterEstimate =
  PositionEstimate :: int
  VelocityEstimate :: int

text \<open>
  The first argument says how the program was built: \<open>True\<close> when the compiler fuses
  the multiplication and the addition (or subtraction) of the two factors.
\<close>

definition AdjustNetworkParams ::
  "bool \<Rightarrow> FilterEstimate \<Rightarrow> FilterEstimate \<Rightarrow> ChainEpoch
     \<Rightarrow> FilterEstimate \<times> FilterEstimate" where
  "AdjustNetworkParams fused reward power' projectionEpochs =
     (if projectionEpochs \<le>s 0 then (reward, power')
      else
        (let powerGrowthRate = f64_0_0001;
             rewardDecayRate = f64_0_00005;
             growthFactor =
               (if fused then f64_fma powerGrowthRate (float64_of_int64 projectionEpochs) 1
                else f64_add 1 (f64_mul powerGrowthRate (float64_of_int64 projectionEpochs)));
             decayFactor0 =
               (if fused then f64_fma (- rewardDecayRate) (float64_of_int64 projectionEpochs) 1
                else f64_sub 1 (f64_mul rewardDecayRate (float64_of_int64 projectionEpochs)));
             decayFactor = (if decayFactor0 < f64_0_1 then f64_0_1 else decayFactor0);
             growth = sint (int64_of_float64 (f64_mul growthFactor 1000));
             decay = sint (int64_of_float64 (f64_mul decayFactor 1000));
             newPowerPos = big_Div (PositionEstimate power' * growth) 1000;
             newPowerVel = big_Div (VelocityEstimate power' * growth) 1000;
             newRewardPos = big_Div (PositionEstimate reward * decay) 1000;
             newRewardVel = big_Div (VelocityEstimate reward * decay) 1000
         in (\<lparr>PositionEstimate = newRewardPos, VelocityEstimate = newRewardVel\<rparr>,
             \<lparr>PositionEstimate = newPowerPos, VelocityEstimate = newPowerVel\<rparr>)))"

text \<open>\<open>EpochsToDays\<close>: \<open>float64(epochs) / 2880.0\<close>.\<close>

definition EpochsToDays :: "ChainEpoch \<Rightarrow> rat" where
  "EpochsToDays epochs = rnd (float64_of_int64 epochs / 2880)"

section \<open>The external collaborators\<close>

text \<open>
  The chain-state service (\<open>api.FullNode\<close>) and the functions of the imported protocol
  packages are not part of the repository. They are the fields of one record that
  every operation takes as its first argument: read-only queries and pure functions
  that either fail with a message (\<open>Inl\<close>) or return a value. A successful query
  returns a record, never a nil pointer.
\<close>

type_synonym Address = nat
type_synonym TipSetKey = nat
type_synonym NetworkVersion = nat
type_synonym ActorVersion = nat
type_synonym Cid = string
type_synonym StateHandle = nat

record TipSet =
  Height :: ChainEpoch
  Key :: TipSetKey

record Actor =
  Code :: Cid

record MinerInfo =
  SectorSize :: nat

record SectorOnChainInfo =
  SectorNumber :: SectorNumber
  Activation :: ChainEpoch
  Expiration :: ChainEpoch
  InitialPledge :: int

record Env =
  address_NewFromString :: "string \<Rightarrow> string + Address"
  ChainHead :: "string + TipSet"
  ChainGetTipSetByHeight :: "ChainEpoch \<Rightarrow> string + TipSet"
  StateNetworkVersion :: "TipSetKey \<Rightarrow> string + NetworkVersion"
  StateGetActor :: "Address \<Rightarrow> TipSetKey \<Rightarrow> string + Actor"
  StateMinerInfo :: "Address \<Rightarrow> TipSetKey \<Rightarrow> string + MinerInfo"
  GetActorMetaByCode :: "Cid \<Rightarrow> ActorVersion option"
  StateMinerSectors :: "Address \<Rightarrow> TipSetKey \<Rightarrow> string + SectorOnChainInfo list"
  StateSectorGetInfo :: "Address \<Rightarrow> SectorNumber \<Rightarrow> TipSetKey \<Rightarrow> string + SectorOnChainInfo"
  reward_Address :: Address
  reward_Load :: "Actor \<Rightarrow> string + StateHandle"
  ThisEpochRewardSmoothed :: "StateHandle \<Rightarrow> string + FilterEstimate"
  power_Address :: Address
  power_Load :: "Actor \<Rightarrow> string + StateHandle"
  TotalPowerSmoothed :: "StateHandle \<Rightarrow> string + FilterEstimate"
  QAPowerForSector :: "nat \<Rightarrow> SectorOnChainInfo \<Rightarrow> int"
  PledgePenaltyForContinuedFault ::
    "NetworkVersion \<Rightarrow> FilterEstimate \<Rightarrow> FilterEstimate \<Rightarrow> int \<Rightarrow> string + int"
  PledgePenaltyForTermination ::
    "NetworkVersion \<Rightarrow> int \<Rightarrow> ChainEpoch \<Rightarrow> int \<Rightarrow> string + int"

subsection \<open>Decimal rendering for the \<open>%d\<close> of the error messages\<close>

function show_nat :: "nat \<Rightarrow> string" where
  "show_nat n =
     (if n < 10 then [char_of (48 + n)]
      else show_nat (n div 10) @ [char_of (48 + n mod 10)])"
  by pat_completeness auto
termination
  by (relation "measure id") auto

definition show_int :: "int \<Rightarrow> string" where
  "show_int i = (if i < 0 then CHR ''-'' # show_nat (nat (- i)) else show_nat (nat i))"

subsection \<open>Reading the two smoothed signals\<close>

text \<open>
  \<open>getNetworkParameters\<close> of the strategy command. \<open>CalculateTerminationFee\<close> has the
  same two \<open>if\<close>/\<open>else if\<close> chains inline, with the same messages stored in the result.
\<close>

definition getNetworkParameters :: "Env \<Rightarrow> TipSet \<Rightarrow> string + (FilterEstimate \<times> FilterEstimate)" where
  "getNetworkParameters env ts =
     (case StateGetActor env (reward_Address env) (Key ts) of
        Inl err \<Rightarrow> Inl (''failed to load reward actor: '' @ err)
      | Inr act \<Rightarrow>
     (case reward_Load env act of
        Inl err \<Rightarrow> Inl (''failed to load reward actor state: '' @ err)
      | Inr s \<Rightarrow>
     (case ThisEpochRewardSmoothed env s of
        Inl err \<Rightarrow> Inl (''failed to get smoothed reward: '' @ err)
      | Inr rewardSmoothed \<Rightarrow>
     (case StateGetActor env (power_Address env) (Key ts) of
        Inl err \<Rightarrow> Inl (''failed to load power actor: '' @ err)
      | Inr act \<Rightarrow>
     (case power_Load env act of
        Inl err \<Rightarrow> Inl (''failed to load power actor state: '' @ err)
      | Inr s \<Rightarrow>
     (case TotalPowerSmoothed env s of
        Inl err \<Rightarrow> Inl (''failed to get total power: '' @ err)
      | Inr powerSmoothed \<Rightarrow> Inr (rewardSmoothed, powerSmoothed)))))))"

section \<open>Termination fees of one miner (CalculateTerminationFee)\<close>

record CalculationRequest =
  MinerID :: string
  TargetEpoch :: ChainEpoch
  SectorNumbers :: "SectorNumber list"

record SectorResult =
  SectorNumber :: SectorNumber
  Fee :: int
  Age :: ChainEpoch
  IsExpired :: bool
  ExpiredDays :: rat

record CalculationResult =
  MinerID :: string
  TargetEpoch :: ChainEpoch
  CurrentEpoch :: ChainEpoch
  IsEstimate :: bool
  TotalSectors :: int
  ActiveSectors :: int
  ExpiredSectors :: int
  TotalFee :: int
  SectorResults :: "SectorResult list"
  Error :: string

text \<open>The loop that fetches the requested sectors one by one.\<close>

fun get_sectors ::
  "Env \<Rightarrow> Address \<Rightarrow> TipSetKey \<Rightarrow> SectorNumber list \<Rightarrow> SectorOnChainInfo list
     \<Rightarrow> string + SectorOnChainInfo list" where
  "get_sectors env mid tsk [] sectors = Inr sectors"
| "get_sectors env mid tsk (num # nums) sectors =
     (case StateSectorGetInfo env mid num tsk of
        Inl err \<Rightarrow> Inl (''failed to get sector '' @ show_nat (unat num) @ '' info: '' @ err)
      | Inr info \<Rightarrow> get_sectors env mid tsk nums (sectors @ [info]))"

text \<open>
  The loop "Calculate fees" over the sectors. Its state is the triple of the local
  variables \<open>totalFee\<close>, \<open>expiredSectors\<close> and \<open>sectorResults\<close>; \<open>Inl\<close> is the message
  stored in \<open>result.Error\<close> when the function returns from inside the loop.
\<close>

fun fee_loop ::
  "Env \<Rightarrow> NetworkVersion \<Rightarrow> FilterEstimate \<Rightarrow> FilterEstimate \<Rightarrow> MinerInfo \<Rightarrow> ChainEpoch
     \<Rightarrow> SectorOnChainInfo list \<Rightarrow> int \<times> int \<times> SectorResult list
     \<Rightarrow> string + (int \<times> int \<times> SectorResult list)" where
  "fee_loop env nv rewardSmoothed powerSmoothed minerInfo targetEpoch [] st = Inr st"
| "fee_loop env nv rewardSmoothed powerSmoothed minerInfo targetEpoch (sector # sectors)
     (totalFee, expiredSectors, sectorResults) =
     (let sectorResult =
            \<lparr>SectorNumber = SectorOnChainInfo.SectorNumber sector, Fee = 0, Age = 0,
             IsExpired = False, ExpiredDays = 0\<rparr>
      in
      if Expiration sector \<le>s targetEpoch then
        fee_loop env nv rewardSmoothed powerSmoothed minerInfo targetEpoch sectors
          (totalFee, expiredSectors + 1,
           sectorResults @
             [sectorResult\<lparr>IsExpired := True,
                ExpiredDays := EpochsToDays (targetEpoch - Expiration sector)\<rparr>])
      else
        (let sectorAge = targetEpoch - Activation sector;
             sectorResult = sectorResult\<lparr>Age := sectorAge\<rparr>
         in
         case PledgePenaltyForContinuedFault env nv
                \<lparr>PositionEstimate = PositionEstimate rewardSmoothed,
                 VelocityEstimate = VelocityEstimate rewardSmoothed\<rparr>
                \<lparr>PositionEstimate = PositionEstimate powerSmoothed,
                 VelocityEstimate = VelocityEstimate powerSmoothed\<rparr>
                (QAPowerForSector env (SectorSize minerInfo) sector) of
           Inl err \<Rightarrow> Inl (''failed to calculate fault fee: '' @ err)
         | Inr faultFee \<Rightarrow>
             (case PledgePenaltyForTermination env nv (InitialPledge sector) sectorAge faultFee of
                Inl err \<Rightarrow> Inl (''failed to calculate termination fee: '' @ err)
              | Inr fee \<Rightarrow>
                  fee_loop env nv rewardSmoothed powerSmoothed minerInfo targetEpoch sectors
                    (totalFee + fee, expiredSectors,
                     sectorResults @ [sectorResult\<lparr>Fee := fee\<rparr>]))))"

definition CalculateTerminationFee :: "Env \<Rightarrow> CalculationRequest \<Rightarrow> CalculationResult" where
  "CalculateTerminationFee env req =
     (let result =
            \<lparr>MinerID = CalculationRequest.MinerID req,
             TargetEpoch = CalculationRequest.TargetEpoch req,
             CurrentEpoch = 0, IsEstimate = False, TotalSectors = 0, ActiveSectors = 0,
             ExpiredSectors = 0, TotalFee = 0, SectorResults = [], Error = []\<rparr>
      in
      case address_NewFromString env (CalculationRequest.MinerID req) of
        Inl err \<Rightarrow> result\<lparr>Error := ''invalid miner address: '' @ err\<rparr>
      | Inr mid \<Rightarrow>
      (case ChainHead env of
        Inl err \<Rightarrow> result\<lparr>Error := ''failed to get current height: '' @ err\<rparr>
      | Inr currentTs \<Rightarrow>
      (let targetEpoch =
             (if CalculationRequest.TargetEpoch req = 0 then Height currentTs
              else CalculationRequest.TargetEpoch req);
           result = result\<lparr>CurrentEpoch := Height currentTs, TargetEpoch := targetEpoch,
                      IsEstimate := Height currentTs <s targetEpoch\<rparr>
       in
       case (if IsEstimate result then Inr currentTs
             else ChainGetTipSetByHeight env targetEpoch) of
         Inl err \<Rightarrow>
           result\<lparr>Error := ''failed to get tipset at epoch '' @ show_int (sint targetEpoch)
                               @ '': '' @ err\<rparr>
       | Inr ts \<Rightarrow>
       (case StateNetworkVersion env (Key ts) of
         Inl err \<Rightarrow> result\<lparr>Error := ''failed to get network version: '' @ err\<rparr>
       | Inr nv \<Rightarrow>
       (case StateGetActor env mid (Key ts) of
         Inl err \<Rightarrow> result\<lparr>Error := ''failed to get miner actor: '' @ err\<rparr>
       | Inr minerAct \<Rightarrow>
       (case StateMinerInfo env mid (Key ts) of
         Inl err \<Rightarrow> result\<lparr>Error := ''failed to get miner info: '' @ err\<rparr>
       | Inr minerInfo \<Rightarrow>
       (case GetActorMetaByCode env (Code minerAct) of
         None \<Rightarrow> result\<lparr>Error := ''unsupported miner actor code: '' @ Code minerAct\<rparr>
       | Some minerVersion \<Rightarrow>
       if minerVersion < 16 then
         result\<lparr>Error := ''unsupported miner version '' @ show_nat minerVersion\<rparr>
       else
       (case (if SectorNumbers req = [] then
                (case StateMinerSectors env mid (Key ts) of
                   Inl err \<Rightarrow> Inl (''failed to get sectors: '' @ err)
                 | Inr sectors \<Rightarrow> Inr sectors)
              else get_sectors env mid (Key ts) (SectorNumbers req) []) of
         Inl msg \<Rightarrow> result\<lparr>Error := msg\<rparr>
       | Inr sectors \<Rightarrow>
       (let result = result\<lparr>TotalSectors := int (length sectors)\<rparr> in
        case getNetworkParameters env ts of
          Inl msg \<Rightarrow> result\<lparr>Error := msg\<rparr>
        | Inr (rewardSmoothed, powerSmoothed) \<Rightarrow>
        (case fee_loop env nv rewardSmoothed powerSmoothed minerInfo targetEpoch sectors
                (0, 0, []) of
           Inl msg \<Rightarrow> result\<lparr>Error := msg\<rparr>
         | Inr (totalFee, expiredSectors, sectorResults) \<Rightarrow>
             result\<lparr>ExpiredSectors := expiredSectors,
                    ActiveSectors := TotalSectors result - expiredSectors,
                    TotalFee := totalFee,
                    SectorResults := sectorResults\<rparr>))))))))))"

section \<open>Termination strategy of one miner (calculateMinerStrategy)\<close>

record MinerStrategyTask =
  Index :: int
  MinerID :: string
  TerminationEpoch :: ChainEpoch
  ExpirationThreshold :: int64
  Verbose :: bool

record SectorStrategy =
  SectorNumber :: SectorNumber
  ExpirationEpoch :: ChainEpoch
  RemainingDays :: rat
  Strategy :: string
  TerminationFee :: int
  DailyFaultFee :: int
  ExpirationFee :: int
  RecommendedFee :: int

text \<open>
  The loop "Calculate strategy for each sector". Its state is the tuple of the local
  variables \<open>terminationFee\<close>, \<open>expirationFee\<close>, \<open>terminateCount\<close>, \<open>expireCount\<close> and
  \<open>sectorDetails\<close>. Each \<open>continue\<close> of the source goes on with the state unchanged.
  The lines printed in verbose mode are not part of the result.
\<close>

fun strategy_loop ::
  "Env \<Rightarrow> NetworkVersion \<Rightarrow> FilterEstimate \<Rightarrow> FilterEstimate \<Rightarrow> MinerInfo
     \<Rightarrow> MinerStrategyTask \<Rightarrow> ChainEpoch \<Rightarrow> SectorOnChainInfo list
     \<Rightarrow> int \<times> int \<times> int \<times> int \<times> SectorStrategy list
     \<Rightarrow> int \<times> int \<times> int \<times> int \<times> SectorStrategy list" where
  "strategy_loop env nv rewardSmoothed powerSmoothed minerInfo task thresholdEpochs [] st = st"
| "strategy_loop env nv rewardSmoothed powerSmoothed minerInfo task thresholdEpochs
     (sector # sectors) (terminationFee, expirationFee, terminateCount, expireCount, sectorDetails) =
     (if Expiration sector \<le>s MinerStrategyTask.TerminationEpoch task then
        strategy_loop env nv rewardSmoothed powerSmoothed minerInfo task thresholdEpochs sectors
          (terminationFee, expirationFee, terminateCount, expireCount, sectorDetails)
      else
        (let sectorDetail =
               \<lparr>SectorNumber = SectorOnChainInfo.SectorNumber sector,
                ExpirationEpoch = Expiration sector,
                RemainingDays =
                  EpochsToDays (Expiration sector - MinerStrategyTask.TerminationEpoch task),
                Strategy = [], TerminationFee = 0, DailyFaultFee = 0, ExpirationFee = 0,
                RecommendedFee = 0\<rparr>;
             sectorAge = MinerStrategyTask.TerminationEpoch task - Activation sector
         in
         case PledgePenaltyForContinuedFault env nv
                \<lparr>PositionEstimate = PositionEstimate rewardSmoothed,
                 VelocityEstimate = VelocityEstimate rewardSmoothed\<rparr>
                \<lparr>PositionEstimate = PositionEstimate powerSmoothed,
                 VelocityEstimate = VelocityEstimate powerSmoothed\<rparr>
                (QAPowerForSector env (SectorSize minerInfo) sector) of
           Inl err \<Rightarrow>
             strategy_loop env nv rewardSmoothed powerSmoothed minerInfo task thresholdEpochs
               sectors (terminationFee, expirationFee, terminateCount, expireCount, sectorDetails)
         | Inr faultFee \<Rightarrow>
         (case PledgePenaltyForTermination env nv (InitialPledge sector) sectorAge faultFee of
           Inl err \<Rightarrow>
             strategy_loop env nv rewardSmoothed powerSmoothed minerInfo task thresholdEpochs
               sectors (terminationFee, expirationFee, terminateCount, expireCount, sectorDetails)
         | Inr termFee \<Rightarrow>
         (let sectorDetail = sectorDetail\<lparr>TerminationFee := termFee, DailyFaultFee := faultFee\<rparr>;
              remainingEpochs = Expiration sector - MinerStrategyTask.TerminationEpoch task;
              expFee = faultFee * sint (div64 remainingEpochs 2880);
              sectorDetail = sectorDetail\<lparr>ExpirationFee := expFee\<rparr>
          in
          if MinerStrategyTask.ExpirationThreshold task = 0 then
            strategy_loop env nv rewardSmoothed powerSmoothed minerInfo task thresholdEpochs
              sectors
              (terminationFee + termFee, expirationFee, terminateCount + 1, expireCount,
               sectorDetails @
                 [sectorDetail\<lparr>Strategy := ''terminate'', RecommendedFee := termFee\<rparr>])
          else if remainingEpochs \<le>s thresholdEpochs then
            strategy_loop env nv rewardSmoothed powerSmoothed minerInfo task thresholdEpochs
              sectors
              (terminationFee, expirationFee + expFee, terminateCount, expireCount + 1,
               sectorDetails @
                 [sectorDetail\<lparr>Strategy := ''expire'', RecommendedFee := expFee\<rparr>])
          else
            strategy_loop env nv rewardSmoothed powerSmoothed minerInfo task thresholdEpochs
              sectors
              (terminationFee + termFee, expirationFee, terminateCount + 1, expireCount,
               sectorDetails @
                 [sectorDetail\<lparr>Strategy := ''terminate'', RecommendedFee := termFee\<rparr>])))))"

record StrategyResult =
  Index :: int
  MinerID :: string
  TerminationEpoch :: ChainEpoch
  ExpirationThreshold :: int64
  TotalSectors :: int
  TerminateSectors :: int
  ExpireSectors :: int
  TerminationFee :: int
  ExpirationFee :: int
  TotalFee :: int
  SectorDetails :: "SectorStrategy list"
  Status :: string
  Error :: string

definition failed :: "StrategyResult \<Rightarrow> string \<Rightarrow> StrategyResult" where
  "failed result msg = result\<lparr>Error := msg, Status := ''failed''\<rparr>"

definition calculateMinerStrategy :: "Env \<Rightarrow> MinerStrategyTask \<Rightarrow> StrategyResult" where
  "calculateMinerStrategy env task =
     (let result =
            \<lparr>Index = MinerStrategyTask.Index task,
             MinerID = MinerStrategyTask.MinerID task,
             TerminationEpoch = MinerStrategyTask.TerminationEpoch task,
             ExpirationThreshold = MinerStrategyTask.ExpirationThreshold task,
             TotalSectors = 0, TerminateSectors = 0, ExpireSectors = 0, TerminationFee = 0,
             ExpirationFee = 0, TotalFee = 0, SectorDetails = [], Status = [], Error = []\<rparr>
      in
      case address_NewFromString env (MinerStrategyTask.MinerID task) of
        Inl err \<Rightarrow> failed result (''invalid miner address: '' @ err)
      | Inr mid \<Rightarrow>
      (case ChainHead env of
        Inl err \<Rightarrow> failed result (''failed to get current height: '' @ err)
      | Inr currentTs \<Rightarrow>
      (case (if Height currentTs <s MinerStrategyTask.TerminationEpoch task then Inr currentTs
             else ChainGetTipSetByHeight env (MinerStrategyTask.TerminationEpoch task)) of
        Inl err \<Rightarrow>
          failed result
            (''failed to get tipset at epoch ''
               @ show_int (sint (MinerStrategyTask.TerminationEpoch task)) @ '': '' @ err)
      | Inr ts \<Rightarrow>
      (case StateNetworkVersion env (Key ts) of
        Inl err \<Rightarrow> failed result (''failed to get network version: '' @ err)
      | Inr nv \<Rightarrow>
      (case StateGetActor env mid (Key ts) of
        Inl err \<Rightarrow> failed result (''failed to get miner actor: '' @ err)
      | Inr minerAct \<Rightarrow>
      (case StateMinerInfo env mid (Key ts) of
        Inl err \<Rightarrow> failed result (''failed to get miner info: '' @ err)
      | Inr minerInfo \<Rightarrow>
      (case GetActorMetaByCode env (Code minerAct) of
        None \<Rightarrow> failed result (''unsupported miner actor code: '' @ Code minerAct)
      | Some minerVersion \<Rightarrow>
      if minerVersion < 16 then
        failed result (''unsupported miner version '' @ show_nat minerVersion)
      else
      (case getNetworkParameters env ts of
        Inl err \<Rightarrow> failed result (''failed to get network parameters: '' @ err)
      | Inr (rewardSmoothed, powerSmoothed) \<Rightarrow>
      (case StateMinerSectors env mid (Key ts) of
        Inl err \<Rightarrow> failed result (''failed to get sectors: '' @ err)
      | Inr sectors \<Rightarrow>
      (let result = result\<lparr>TotalSectors := int (length sectors)\<rparr> in
       if length sectors = 0 then result\<lparr>Status := ''success''\<rparr>
       else
         (let thresholdEpochs = MinerStrategyTask.ExpirationThreshold task * 2880 in
          case strategy_loop env nv rewardSmoothed powerSmoothed minerInfo task thresholdEpochs
                 sectors (0, 0, 0, 0, []) of
            (terminationFee, expirationFee, terminateCount, expireCount, sectorDetails) \<Rightarrow>
              result\<lparr>TerminateSectors := terminateCount,
                     ExpireSectors := expireCount,
                     TerminationFee := terminationFee,
                     ExpirationFee := expirationFee,
                     TotalFee := terminationFee + expirationFee,
                     SectorDetails := sectorDetails,
                     Status := ''success''\<rparr>)))))))))))"

section \<open>Fleet totals and summary (batch1Calculate, printSummary)\<close>

text \<open>The loop "Calculate totals" of \<open>batch1Calculate\<close>.\<close>

fun totals_loop :: "StrategyResult list \<Rightarrow> int \<times> int \<Rightarrow> int \<times> int" where
  "totals_loop [] st = st"
| "totals_loop (result # results) (totalTerminationFee, totalExpirationFee) =
     (if Error result = [] then
        totals_loop results
          (totalTerminationFee + TerminationFee result, totalExpirationFee + ExpirationFee result)
      else totals_loop results (totalTerminationFee, totalExpirationFee))"

text \<open>
  \<open>printSummary\<close> returns nothing and prints its figures; the record holds the figures
  it prints, one field for each, named after the printed label. A percentage is the
  double that \<open>%.1f\<close> or \<open>%.2f\<close> receives.
\<close>

record Summary =
  TotalMinersProcessed :: int
  SuccessfulCalculations :: int
  FailedCalculations :: int
  TotalSectorsAnalyzed :: int
  SectorsToTerminate :: int
  SectorsToTerminatePercent :: float64
  SectorsToLetExpire :: int
  SectorsToLetExpirePercent :: float64
  TotalTerminationFees :: int
  TotalExpirationFees :: int
  CombinedTotalFees :: int
  StrategySavings :: "(int \<times> float64) option"

definition float64_of_int :: "int \<Rightarrow> rat" where
  "float64_of_int n = rnd (of_int n)"

text \<open>The first loop: \<open>successCount\<close>, \<open>totalSectors\<close>, \<open>totalTerminate\<close>, \<open>totalExpire\<close>.\<close>

fun count_loop :: "StrategyResult list \<Rightarrow> int \<times> int \<times> int \<times> int \<Rightarrow> int \<times> int \<times> int \<times> int" where
  "count_loop [] st = st"
| "count_loop (r # results) (successCount, totalSectors, totalTerminate, totalExpire) =
     (if Error r = [] then
        count_loop results
          (successCount + 1, totalSectors + TotalSectors r, totalTerminate + TerminateSectors r,
           totalExpire + ExpireSectors r)
      else count_loop results (successCount, totalSectors, totalTerminate, totalExpire))"

text \<open>The second loop: what terminating every priced sector would cost.\<close>

fun details_loop :: "SectorStrategy list \<Rightarrow> int \<Rightarrow> int" where
  "details_loop [] allTerminationFee = allTerminationFee"
| "details_loop (detail # details) allTerminationFee =
     details_loop details (allTerminationFee + SectorStrategy.TerminationFee detail)"

fun all_termination_loop :: "StrategyResult list \<Rightarrow> int \<Rightarrow> int" where
  "all_termination_loop [] allTerminationFee = allTerminationFee"
| "all_termination_loop (r # results) allTerminationFee =
     (if Error r = [] then
        all_termination_loop results (details_loop (SectorDetails r) allTerminationFee)
      else all_termination_loop results allTerminationFee)"

definition printSummary :: "StrategyResult list \<Rightarrow> int \<Rightarrow> int \<Rightarrow> Summary" where
  "printSummary results totalTerminationFee totalExpirationFee =
     (case count_loop results (0, 0, 0, 0) of
        (successCount, totalSectors, totalTerminate, totalExpire) \<Rightarrow>
          (let allTerminationFee = all_termination_loop results 0;
               savings = allTerminationFee - (totalTerminationFee + totalExpirationFee)
           in
           \<lparr>TotalMinersProcessed = int (length results),
            SuccessfulCalculations = successCount,
            FailedCalculations = int (length results) - successCount,
            TotalSectorsAnalyzed = totalSectors,
            SectorsToTerminate = totalTerminate,
            SectorsToTerminatePercent =
              f64_div (f64_mul (float64_of_int totalTerminate) 100) (float64_of_int totalSectors),
            SectorsToLetExpire = totalExpire,
            SectorsToLetExpirePercent =
              f64_div (f64_mul (float64_of_int totalExpire) 100) (float64_of_int totalSectors),
            TotalTerminationFees = totalTerminationFee,
            TotalExpirationFees = totalExpirationFee,
            CombinedTotalFees = totalTerminationFee + totalExpirationFee,
            StrategySavings =
              (if 0 < totalSectors \<and> 0 < allTerminationFee \<and> 0 < savings then
                 Some (savings,
                       f64_div (f64_mul (float64_of_int64 (big_Int64 savings)) 100)
                         (float64_of_int64 (big_Int64 allTerminationFee)))
               else None)\<rparr>))"

text \<open>The summary that \<open>batch1Calculate\<close> prints for the results of a batch.\<close>

definition batch1Summary :: "StrategyResult list \<Rightarrow> Summary" where
  "batch1Summary results =
     (case totals_loop results (0, 0) of
        (totalTerminationFee, totalExpirationFee) \<Rightarrow>
          printSummary results totalTerminationFee totalExpirationFee)"

section \<open>Properties of the loops, as predicates\<close>

text \<open>
  A sector is priced when both penalty functions succeed on it, with the arguments the
  two loops pass them.
\<close>

definition priced ::
  "Env \<Rightarrow> NetworkVersion \<Rightarrow> FilterEstimate \<Rightarrow> FilterEstimate \<Rightarrow> MinerInfo \<Rightarrow> ChainEpoch
     \<Rightarrow> SectorOnChainInfo \<Rightarrow> bool" where
  "priced env nv rewardSmoothed powerSmoothed minerInfo targetEpoch sector =
     (case PledgePenaltyForContinuedFault env nv
             \<lparr>PositionEstimate = PositionEstimate rewardSmoothed,
              VelocityEstimate = VelocityEstimate rewardSmoothed\<rparr>
             \<lparr>PositionEstimate = PositionEstimate powerSmoothed,
              VelocityEstimate = VelocityEstimate powerSmoothed\<rparr>
             (QAPowerForSector env (SectorSize minerInfo) sector) of
        Inl err \<Rightarrow> False
      | Inr faultFee \<Rightarrow>
          (case PledgePenaltyForTermination env nv (InitialPledge sector)
                  (targetEpoch - Activation sector) faultFee of
             Inl err \<Rightarrow> False
           | Inr fee \<Rightarrow> True))"

text \<open>The sum of the fees of the entries that are not expired.\<close>

definition active_fee_sum :: "SectorResult list \<Rightarrow> int" where
  "active_fee_sum sectorResults =
     sum_list (map Fee (filter (\<lambda>sr. \<not> IsExpired sr) sectorResults))"

section \<open>A small chain state to run the operations on\<close>

text \<open>
  Head of the chain at epoch 2400000; one miner, \<open>f01234\<close>, with three sectors. At epoch
  2500000 the first has expired, the second expires within seven days (10000 epochs
  left) and the third much later. The two penalty functions are simple stand-ins
  that depend on every argument the protocol's functions depend on.
\<close>

definition example_sectors :: "SectorOnChainInfo list" where
  "example_sectors =
     [\<lparr>SectorOnChainInfo.SectorNumber = 1, Activation = 1000, Expiration = 2000000, InitialPledge = 5000\<rparr>,
      \<lparr>SectorOnChainInfo.SectorNumber = 2, Activation = 2000000, Expiration = 2510000, InitialPledge = 6000\<rparr>,
      \<lparr>SectorOnChainInfo.SectorNumber = 3, Activation = 2300000, Expiration = 3500000, InitialPledge = 7000\<rparr>]"

definition example_env :: Env where
  "example_env =
     \<lparr>address_NewFromString =
        (\<lambda>s. if s = ''f01234'' then Inr 1234 else Inl ''unknown address protocol''),
      ChainHead = Inr \<lparr>Height = 2400000, Key = 1\<rparr>,
      ChainGetTipSetByHeight =
        (\<lambda>h. if 0 \<le>s h \<and> h \<le>s 2400000 then Inr \<lparr>Height = h, Key = 2\<rparr>
             else Inl ''looking for tipset with height greater than start point''),
      StateNetworkVersion = (\<lambda>tsk. Inr 25),
      StateGetActor = (\<lambda>addr tsk. Inr \<lparr>Code = ''storageminer''\<rparr>),
      StateMinerInfo = (\<lambda>addr tsk. Inr \<lparr>SectorSize = 34359738368\<rparr>),
      GetActorMetaByCode = (\<lambda>code. Some 16),
      StateMinerSectors = (\<lambda>addr tsk. Inr example_sectors),
      StateSectorGetInfo =
        (\<lambda>addr num tsk.
           case find (\<lambda>s. SectorOnChainInfo.SectorNumber s = num) example_sectors of
             None \<Rightarrow> Inl ''sector not found''
           | Some s \<Rightarrow> Inr s),
      reward_Address = 2,
      reward_Load = (\<lambda>act. Inr 0),
      ThisEpochRewardSmoothed =
        (\<lambda>s. Inr \<lparr>PositionEstimate = 1000, VelocityEstimate = 100\<rparr>),
      power_Address = 4,
      power_Load = (\<lambda>act. Inr 0),
      TotalPowerSmoothed = (\<lambda>s. Inr \<lparr>PositionEstimate = 2000, VelocityEstimate = 200\<rparr>),
      QAPowerForSector = (\<lambda>size sector. 64),
      PledgePenaltyForContinuedFault =
        (\<lambda>nv rewardEstimate powerEstimate qaPower.
           Inr (qaPower * PositionEstimate rewardEstimate div PositionEstimate powerEstimate)),
      PledgePenaltyForTermination =
        (\<lambda>nv initialPledge sectorAge faultFee. Inr (initialPledge div 50 + faultFee))\<rparr>"

text \<open>The same chain with a network version that the penalty functions reject.\<close>

definition unsupported_env :: Env where
  "unsupported_env =
     example_env\<lparr>PledgePenaltyForContinuedFault :=
       (\<lambda>nv rewardEstimate powerEstimate qaPower. Inl ''unsupported network version'')\<rparr>"

text \<open>The same chain with a miner that has no sector.\<close>

definition empty_env :: Env where
  "empty_env = example_env\<lparr>StateMinerSectors := (\<lambda>addr tsk. Inr [])\<rparr>"

definition example_request :: CalculationRequest where
  "example_request = \<lparr>CalculationRequest.MinerID = ''f01234'', CalculationRequest.TargetEpoch = 2500000,
      SectorNumbers = []\<rparr>"

definition example_task :: MinerStrategyTask where
  "example_task =
     \<lparr>MinerStrategyTask.Index = 0, MinerStrategyTask.MinerID = ''f01234'',
      MinerStrategyTask.TerminationEpoch = 2500000,
      MinerStrategyTask.ExpirationThreshold = 7, Verbose = False\<rparr>"

section \<open>Epochs and times: the round trip\<close>

lemma sint_EpochDuration: "sint EpochDuration = 30000000000"
  by (simp add: EpochDuration_def)

lemma sint_range64:
  "- 9223372036854775808 \<le> sint (d::64 word) \<and> sint d \<le> 9223372036854775807"
  using sint_ge [of d] sint_lt [of d] by simp

lemma sint_word_of_int64:
  assumes "- 9223372036854775808 \<le> k" "k \<le> 9223372036854775807"
  shows "sint (word_of_int k :: 64 word) = k"
  using assms by (simp only: sint_sbintrunc') (intro signed_take_bit_int_eq_self; simp)

lemma sint_mult_EpochDuration:
  assumes "- 307445734 \<le> sint (e::64 word)" "sint e \<le> 307445734"
  shows "sint (e * EpochDuration) = sint e * 30000000000"
proof -
  have "sint (e * EpochDuration) = signed_take_bit 63 (sint e * 30000000000)"
    by (simp add: sint_word_ariths sint_EpochDuration)
  also have "\<dots> = sint e * 30000000000"
    using assms by (intro signed_take_bit_int_eq_self) auto
  finally show ?thesis .
qed

lemma sint_div64_EpochDuration:
  assumes "0 \<le> sint (d::64 word)"
  shows "sint (div64 d EpochDuration) = sint d div 30000000000"
proof -
  have "sint d sdiv sint EpochDuration = sint d div 30000000000"
    using assms by (simp add: sint_EpochDuration signed_divide_int_def sgn_if)
  moreover have "sint d div 30000000000 \<le> sint d" "0 \<le> sint d div 30000000000"
    using assms by (auto intro: order_trans [OF zdiv_mono2 [of "sint d" 1 30000000000]])
  ultimately show ?thesis
    using sint_range64 [of d] by (simp add: div64_def sint_word_of_int64)
qed

lemma sint_Time_Sub:
  assumes "- 9223372036854775808 \<le> t - u" "t - u \<le> 9223372036854775807"
  shows "sint (Time_Sub t u) = t - u"
proof -
  have "sint (word_of_int (t - u) :: 64 word) = t - u"
    using assms by (rule sint_word_of_int64)
  with assms show ?thesis by (simp add: Time_Sub_def Let_def del: of_int_diff)
qed

lemma TimeToEpoch_EpochToTime:
  assumes "0 \<le> sint e" "sint e \<le> 307445734"
  shows "TimeToEpoch (EpochToTime e G) G = e"
proof -
  let ?t = "EpochToTime e G"
  have t: "?t = G + sint e * 30000000000"
    using assms by (simp add: EpochToTime_def Time_Add_def sint_mult_EpochDuration)
  have nb: "\<not> Time_Before ?t G" using assms by (simp add: t Time_Before_def)
  have "sint (Time_Sub ?t G) = sint e * 30000000000"
    using assms by (subst sint_Time_Sub) (auto simp: t)
  then have "sint (div64 (Time_Sub ?t G) EpochDuration) = sint e"
    using assms by (simp add: sint_div64_EpochDuration)
  then have "div64 (Time_Sub ?t G) EpochDuration = e"
    by (simp add: signed_word_eqI)
  with nb show ?thesis by (simp add: TimeToEpoch_def Let_def)
qed

lemma EpochToTime_TimeToEpoch:
  assumes "G \<le> t" "t - G \<le> 9223372036854775807"
  shows "EpochToTime (TimeToEpoch t G) G \<le> t \<and> t - EpochToTime (TimeToEpoch t G) G < 30000000000"
proof -
  have nb: "\<not> Time_Before t G" using assms by (simp add: Time_Before_def)
  have d: "sint (Time_Sub t G) = t - G"
    using assms by (subst sint_Time_Sub) auto
  let ?q = "(t - G) div 30000000000"
  have q: "sint (TimeToEpoch t G) = ?q"
    using nb d assms by (simp add: TimeToEpoch_def Let_def sint_div64_EpochDuration)
  have q0: "0 \<le> ?q" using assms by simp
  have "?q * 30000000000 \<le> t - G" by (simp add: minus_div_mult_eq_mod [symmetric])
  then have q1: "?q \<le> 307445734" using assms by linarith
  have "EpochToTime (TimeToEpoch t G) G = G + ?q * 30000000000"
    using q q0 q1 by (simp add: EpochToTime_def Time_Add_def sint_mult_EpochDuration)
  moreover have "?q * 30000000000 \<le> t - G" "t - G - ?q * 30000000000 < 30000000000"
    by (simp_all add: minus_div_mult_eq_mod)
  ultimately show ?thesis by linarith
qed

lemma TimeToEpoch_EpochToTime_negative:
  assumes "- 307445734 \<le> sint e" "sint e < 0"
  shows "TimeToEpoch (EpochToTime e G) G = 0"
proof -
  have "EpochToTime e G = G + sint e * 30000000000"
    using assms by (simp add: EpochToTime_def Time_Add_def sint_mult_EpochDuration)
  then have "Time_Before (EpochToTime e G) G" using assms by (simp add: Time_Before_def)
  then show ?thesis by (simp add: TimeToEpoch_def)
qed

text \<open>
  C7, as the code has it. An epoch that is not negative and whose distance from genesis
  fits a Duration (at most 307445734 epochs, about 292 years) survives the round trip
  through a time exactly. A negative epoch of at most that distance comes back as
  epoch 0. A time at or after genesis, at most the largest Duration after it, comes
  back from the round trip through an epoch not later than it was and less than one
  epoch duration (30 seconds, in nanoseconds) earlier.
\<close>

theorem epoch_time_round_trip:
  "(0 \<le> sint e \<and> sint e \<le> 307445734 \<longrightarrow> TimeToEpoch (EpochToTime e G) G = e) \<and>
   (- 307445734 \<le> sint e \<and> sint e < 0 \<longrightarrow> TimeToEpoch (EpochToTime e G) G = 0) \<and>
   (G \<le> t \<and> t - G \<le> 9223372036854775807 \<longrightarrow>
      EpochToTime (TimeToEpoch t G) G \<le> t \<and>
      t - EpochToTime (TimeToEpoch t G) G < 30000000000)"
  using TimeToEpoch_EpochToTime [of e G] TimeToEpoch_EpochToTime_negative [of e G]
    EpochToTime_TimeToEpoch [of G t]
  by blast

text \<open>
  One day after the genesis of the main network (Unix time 1598306400), a time 45
  seconds after that genesis, and the epoch one hour before it.
\<close>

theorem epoch_time_round_trip_witness:
  "0 \<le> sint (2880 :: ChainEpoch) \<and> sint (2880 :: ChainEpoch) \<le> 307445734 \<and>
   TimeToEpoch (EpochToTime 2880 1598306400000000000) 1598306400000000000 = 2880 \<and>
   - 307445734 \<le> sint (- 120 :: ChainEpoch) \<and> sint (- 120 :: ChainEpoch) < 0 \<and>
   TimeToEpoch (EpochToTime (- 120) 1598306400000000000) 1598306400000000000 = 0 \<and>
   (1598306400000000000 :: Time) \<le> 1598306445000000000 \<and>
   (1598306445000000000 :: Time) - 1598306400000000000 \<le> 9223372036854775807 \<and>
   EpochToTime (TimeToEpoch 1598306445000000000 1598306400000000000) 1598306400000000000
     \<le> 1598306445000000000 \<and>
   1598306445000000000
     - EpochToTime (TimeToEpoch 1598306445000000000 1598306400000000000) 1598306400000000000
     < 30000000000"
  using epoch_time_round_trip [of 2880 1598306400000000000 1598306445000000000]
    epoch_time_round_trip [of "- 120" 1598306400000000000 1598306445000000000]
  by simp

text \<open>
  C7 as stated fails at the negative epoch of the repository's own test of
  \<open>EpochToTime\<close>: thirty minutes before genesis is converted back to epoch 0.
\<close>

theorem epoch_time_round_trip_counterexample:
  "TimeToEpoch (EpochToTime (- 60) 1598306400000000000) 1598306400000000000 \<noteq> - 60"
  by (simp add: TimeToEpoch_def EpochToTime_def Time_Add_def Time_Before_def EpochDuration_def)

text \<open>
  The bounds of the statement are needed. One epoch further from genesis the product
  of epoch and epoch duration wraps around: epoch -307445735 is taken for a time 292
  years after genesis. Past the largest Duration \<open>Sub\<close> saturates, and a time 300 years
  after genesis comes back more than seven years early.
\<close>

lemma TimeToEpoch_wraps:
  "TimeToEpoch (EpochToTime (- 307445735) 0) 0 = 307445734"
  by (simp add: TimeToEpoch_def EpochToTime_def Time_Add_def Time_Sub_def Time_Before_def
      EpochDuration_def div64_def signed_divide_int_def)

lemma TimeToEpoch_saturates:
  "9460800000000000000 - EpochToTime (TimeToEpoch 9460800000000000000 0) 0 = 237427980000000000"
  by (simp add: TimeToEpoch_def EpochToTime_def Time_Add_def Time_Sub_def Time_Before_def
      EpochDuration_def div64_def signed_divide_int_def)

section \<open>Sector-number parsing: what the parser returns\<close>

lemmas parse_eval =
  ParseSectorNumbers_def TrimSpace_def spacePrefix_def asciiSpace_def unicodeSpaces_def
  Contains_def Atoi_def ParseUint_def isDigit_def Let_def word_sless_alt word_sle_eq

text \<open>What the function returns on the inputs of its test table.\<close>

lemma ParseSectorNumbers_examples:
  "ParseSectorNumbers ''1,3-5,7'' = Some (Inr [1, 3, 4, 5, 7])"
  "ParseSectorNumbers ''1, 2 , 3'' = Some (Inr [1, 2, 3])"
  "ParseSectorNumbers [] = Some (Inr [])"
  "ParseSectorNumbers ''1 - 3'' = Some (Inr [1, 2, 3])"
  "ParseSectorNumbers ''1,,3'' = Some (Inr [1, 3])"
  "ParseSectorNumbers ''3-1'' = Some (Inl (StartGreaterThanEnd 3 1))"
  "ParseSectorNumbers ''abc'' = Some (Inl (InvalidSectorNumber ''abc''))"
  "ParseSectorNumbers ''1-2-3'' = Some (Inl (InvalidRangeFormat ''1-2-3''))"
  "ParseSectorNumbers ''1-abc'' = Some (Inl (InvalidEndSectorNumber ''abc''))"
  by (simp_all add: parse_eval range_loop.simps)

text \<open>A token without a minus sign never parses to a negative number.\<close>

lemma ParseUint_no_minus:
  assumes "ParseUint s = Some un" "un < 9223372036854775808"
  shows "0 \<le> sint (word_of_nat un :: 64 word)"
proof -
  have "sint (word_of_nat un :: 64 word) = sint (word_of_int (int un) :: 64 word)" by simp
  also have "\<dots> = int un"
    using assms(2) by (intro sint_word_of_int64) auto
  finally show ?thesis by simp
qed

lemma Atoi_no_minus:
  assumes "Atoi s = Some num" "CHR ''-'' \<notin> set s"
  shows "\<not> num <s 0"
proof -
  from assms obtain c cs where s: "s = c # cs" "c \<noteq> CHR ''-''"
    by (cases s) (auto simp: Atoi_def)
  with assms(1) obtain un where
    "ParseUint (if c = CHR ''+'' then cs else s) = Some un" "un < 9223372036854775808"
    "num = word_of_nat un"
    by (auto simp: Atoi_def split: option.splits if_splits)
  then have "0 \<le> sint num" using ParseUint_no_minus by blast
  then show ?thesis by (simp add: word_sless_alt)
qed

lemma parts_loop_not_negative:
  "parts_loop parts sectorNumbers \<noteq> Some (Inl (SectorNumberNegative n))"
proof (induction parts sectorNumbers rule: parts_loop.induct)
  case (1 sectorNumbers)
  show ?case by simp
next
  case (2 p parts sectorNumbers)
  show ?case
  proof (cases "TrimSpace p = []")
    case True
    with 2 show ?thesis by simp
  next
    case ne: False
    show ?thesis
    proof (cases "Contains (TrimSpace p) (CHR ''-'')")
      case True
      with ne 2(2) show ?thesis
        by (auto simp: Let_def split: option.splits)
    next
      case False
      then have nm: "CHR ''-'' \<notin> set (TrimSpace p)" by (simp add: Contains_def)
      show ?thesis
      proof (cases "Atoi (TrimSpace p)")
        case None
        with ne False show ?thesis by (simp add: Let_def)
      next
        case (Some num)
        from Some nm have "\<not> num <s 0" by (rule Atoi_no_minus)
        with ne False Some 2(3) show ?thesis by (simp add: Let_def)
      qed
    qed
  qed
qed

text \<open>
  C10. Whatever the input, \<open>ParseSectorNumbers\<close> does not return the error "sector
  number cannot be negative": a token with a minus sign is taken as a range, and
  \<open>Atoi\<close> of a token without one is not negative. The token \<open>-1\<close> is split at its
  minus sign into an empty start and \<open>1\<close>, and the empty start is rejected as an
  invalid start sector number.
\<close>

theorem ParseSectorNumbers_never_negative_error:
  "ParseSectorNumbers s \<noteq> Some (Inl (SectorNumberNegative n)) \<and>
   ParseSectorNumbers ''-1'' = Some (Inl (InvalidStartSectorNumber []))"
proof
  show "ParseSectorNumbers s \<noteq> Some (Inl (SectorNumberNegative n))"
    unfolding ParseSectorNumbers_def by (rule parts_loop_not_negative)
  show "ParseSectorNumbers ''-1'' = Some (Inl (InvalidStartSectorNumber []))"
    by (simp add: parse_eval)
qed

theorem ParseSectorNumbers_never_negative_error_witness:
  "ParseSectorNumbers ''1,-2'' \<noteq> Some (Inl (SectorNumberNegative (- 2))) \<and>
   ParseSectorNumbers ''1,-2'' = Some (Inl (InvalidStartSectorNumber []))"
  using ParseSectorNumbers_never_negative_error [of "''1,-2''" "- 2"]
  by (simp add: parse_eval)

text \<open>A range that ends at the largest \<open>int64\<close> is never left: \<open>i <= end\<close> always holds.\<close>

lemma range_loop_returns:
  assumes "range_loop i e sectorNumbers = Some result"
  shows "e \<noteq> 9223372036854775807"
proof (rule range_loop.raw_induct [OF _ assms], goal_cases)
  case (1 loop j e' acc res)
  show ?case
  proof (cases "j \<le>s e'")
    case True
    with 1 show ?thesis by simp
  next
    case False
    then have "sint e' < sint j" by (simp add: word_sle_eq)
    moreover have "sint j \<le> 9223372036854775807" using sint_range64 [of j] by simp
    ultimately have "sint e' \<noteq> sint (9223372036854775807 :: 64 word)" by simp
    then show ?thesis by auto
  qed
qed

lemma range_loop_MaxInt64 [simp]: "range_loop i 9223372036854775807 sectorNumbers = None"
  using range_loop_returns [of i 9223372036854775807 sectorNumbers] by (cases "range_loop i 9223372036854775807 sectorNumbers") auto

text \<open>
  C8 at the input \<open>9223372036854775807-9223372036854775807,abc\<close>. The first token is an
  ascending range of one number; the loop that expands it does not end, so the call
  never reaches the token \<open>abc\<close> and returns neither an error nor a list.
\<close>

theorem ParseSectorNumbers_range_to_MaxInt64:
  "ParseSectorNumbers ''9223372036854775807-9223372036854775807,abc'' = None"
  by (simp add: parse_eval)

section \<open>Termination fees of one miner: counts and totals\<close>

lemma getNetworkParameters_message: "getNetworkParameters env ts \<noteq> Inl []"
  by (auto simp: getNetworkParameters_def split: sum.splits)

lemma get_sectors_message: "get_sectors env mid tsk nums sectors \<noteq> Inl []"
  by (induction nums arbitrary: sectors) (auto split: sum.splits)

lemma fee_loop_message: "fee_loop env nv rw pw mi T sectors st \<noteq> Inl []"
proof (induction sectors arbitrary: st)
  case Nil
  show ?case by simp
next
  case (Cons s sectors)
  obtain tf ex srs where st: "st = (tf, ex, srs)" by (cases st)
  show ?case unfolding st
    by (auto simp: Let_def Cons.IH split: if_splits sum.splits)
qed

text \<open>
  A result without error comes from the one path on which every query and every
  penalty call succeeded.
\<close>

lemma CalculateTerminationFee_no_error:
  assumes "CalculationResult.Error (CalculateTerminationFee env req) = []"
  obtains mid currentTs targetEpoch ts nv minerInfo sectors rewardSmoothed powerSmoothed
    totalFee expiredSectors sectorResults
  where
    "address_NewFromString env (CalculationRequest.MinerID req) = Inr mid"
    "ChainHead env = Inr currentTs"
    "targetEpoch = (if CalculationRequest.TargetEpoch req = 0 then Height currentTs
                    else CalculationRequest.TargetEpoch req)"
    "(if Height currentTs <s targetEpoch then Inr currentTs
      else ChainGetTipSetByHeight env targetEpoch) = Inr ts"
    "StateNetworkVersion env (Key ts) = Inr nv"
    "StateMinerInfo env mid (Key ts) = Inr minerInfo"
    "(if SectorNumbers req = [] then
        (case StateMinerSectors env mid (Key ts) of
           Inl err \<Rightarrow> Inl (''failed to get sectors: '' @ err)
         | Inr sectors \<Rightarrow> Inr sectors)
      else get_sectors env mid (Key ts) (SectorNumbers req) []) = Inr sectors"
    "getNetworkParameters env ts = Inr (rewardSmoothed, powerSmoothed)"
    "fee_loop env nv rewardSmoothed powerSmoothed minerInfo targetEpoch sectors (0, 0, [])
       = Inr (totalFee, expiredSectors, sectorResults)"
    "CalculateTerminationFee env req =
       \<lparr>CalculationResult.MinerID = CalculationRequest.MinerID req,
        CalculationResult.TargetEpoch = targetEpoch,
        CurrentEpoch = Height currentTs, IsEstimate = Height currentTs <s targetEpoch,
        CalculationResult.TotalSectors = int (length sectors),
        ActiveSectors = int (length sectors) - expiredSectors,
        ExpiredSectors = expiredSectors, CalculationResult.TotalFee = totalFee,
        SectorResults = sectorResults, CalculationResult.Error = []\<rparr>"
proof -
  note d = CalculateTerminationFee_def Let_def
  obtain mid where 1: "address_NewFromString env (CalculationRequest.MinerID req) = Inr mid"
    using assms by (cases "address_NewFromString env (CalculationRequest.MinerID req)")
      (simp_all add: d)
  obtain currentTs where 2: "ChainHead env = Inr currentTs"
    using assms 1 by (cases "ChainHead env") (simp_all add: d)
  define targetEpoch where
    "targetEpoch = (if CalculationRequest.TargetEpoch req = 0 then Height currentTs
                    else CalculationRequest.TargetEpoch req)"
  obtain ts where 3: "(if Height currentTs <s targetEpoch then Inr currentTs
      else ChainGetTipSetByHeight env targetEpoch) = Inr ts"
    using assms 1 2 
    by (cases "(if Height currentTs <s targetEpoch then Inr currentTs
      else ChainGetTipSetByHeight env targetEpoch)")
      (simp_all add: d targetEpoch_def [symmetric])
  have t3: "(if Height currentTs
            <s (if CalculationRequest.TargetEpoch req = 0 then Height currentTs
                else CalculationRequest.TargetEpoch req)
         then Inr currentTs
         else ChainGetTipSetByHeight env
               (if CalculationRequest.TargetEpoch req = 0 then Height currentTs
                else CalculationRequest.TargetEpoch req)) = Inr ts"
    using 3 by (simp only: targetEpoch_def)
  obtain nv where 4: "StateNetworkVersion env (Key ts) = Inr nv"
    using assms 1 2 t3 by (cases "StateNetworkVersion env (Key ts)") (simp_all add: d)
  obtain minerAct where 5: "StateGetActor env mid (Key ts) = Inr minerAct"
    using assms 1 2 t3 4 by (cases "StateGetActor env mid (Key ts)") (simp_all add: d)
  obtain minerInfo where 6: "StateMinerInfo env mid (Key ts) = Inr minerInfo"
    using assms 1 2 t3 4 5 by (cases "StateMinerInfo env mid (Key ts)") (simp_all add: d)
  obtain minerVersion where 7: "GetActorMetaByCode env (Code minerAct) = Some minerVersion"
    using assms 1 2 t3 4 5 6 by (cases "GetActorMetaByCode env (Code minerAct)") (simp_all add: d)
  have 8: "\<not> minerVersion < 16"
    using assms 1 2 t3 4 5 6 7 by (cases "minerVersion < 16") (simp_all add: d)
  let ?fetch = "(if SectorNumbers req = [] then
                (case StateMinerSectors env mid (Key ts) of
                   Inl err \<Rightarrow> Inl (''failed to get sectors: '' @ err)
                 | Inr sectors \<Rightarrow> Inr sectors)
              else get_sectors env mid (Key ts) (SectorNumbers req) [])"
  have "?fetch \<noteq> Inl []"
    by (auto simp: get_sectors_message split: sum.splits)
  then obtain sectors where 9: "?fetch = Inr sectors"
    using assms 1 2 t3 4 5 6 7 8 by (cases ?fetch) (auto simp add: d)
  obtain rewardSmoothed powerSmoothed where
    10: "getNetworkParameters env ts = Inr (rewardSmoothed, powerSmoothed)"
    using assms 1 2 t3 4 5 6 7 8 9 getNetworkParameters_message [of env ts]
    by (cases "getNetworkParameters env ts") (auto simp add: d)
  obtain totalFee expiredSectors sectorResults where
    11: "fee_loop env nv rewardSmoothed powerSmoothed minerInfo targetEpoch sectors (0, 0, [])
       = Inr (totalFee, expiredSectors, sectorResults)"
    using assms 1 2 t3 4 5 6 7 8 9 10
      fee_loop_message [of env nv rewardSmoothed powerSmoothed minerInfo targetEpoch sectors "(0, 0, [])"]
    by (cases "fee_loop env nv rewardSmoothed powerSmoothed minerInfo targetEpoch sectors (0, 0, [])")
      (auto simp add: d targetEpoch_def)
  have l11: "fee_loop env nv rewardSmoothed powerSmoothed minerInfo 
         (if CalculationRequest.TargetEpoch req = 0 then Height currentTs
                else CalculationRequest.TargetEpoch req) sectors (0, 0, [])
       = Inr (totalFee, expiredSectors, sectorResults)"
    using 11 by (simp only: targetEpoch_def)
  have "CalculateTerminationFee env req =
       \<lparr>CalculationResult.MinerID = CalculationRequest.MinerID req,
        CalculationResult.TargetEpoch = targetEpoch,
        CurrentEpoch = Height currentTs, IsEstimate = Height currentTs <s targetEpoch,
        CalculationResult.TotalSectors = int (length sectors),
        ActiveSectors = int (length sectors) - expiredSectors,
        ExpiredSectors = expiredSectors, CalculationResult.TotalFee = totalFee,
        SectorResults = sectorResults, CalculationResult.Error = []\<rparr>"
    using 1 2 t3 4 5 6 7 8 9 10 l11 by (simp add: d targetEpoch_def)
  with that [OF 1 2 targetEpoch_def 3 4 6 9 10 11] show thesis .
qed


text \<open>What the loop adds to its three variables.\<close>

lemma active_fee_sum_snoc:
  "active_fee_sum (srs @ [sr]) = active_fee_sum srs + (if IsExpired sr then 0 else Fee sr)"
  by (simp add: active_fee_sum_def)

lemma fee_loop_total:
  "fee_loop env nv rw pw mi T sectors (tf, ex, srs) = Inr (tf', ex', srs') \<Longrightarrow>
   tf' - active_fee_sum srs' = tf - active_fee_sum srs"
proof (induction sectors arbitrary: tf ex srs)
  case Nil
  then show ?case by simp
next
  case (Cons s sectors)
  from Cons.prems show ?case
    by (auto simp: Let_def active_fee_sum_snoc split: if_splits sum.splits dest!: Cons.IH)
qed

text \<open>
  C4. A result of \<open>CalculateTerminationFee\<close> without error has as many active and
  expired sectors together as sectors in total, and its total fee is the sum of the
  fees of its sector results that are not expired.
\<close>

theorem CalculateTerminationFee_counts_and_total:
  "CalculationResult.Error (CalculateTerminationFee env req) = [] \<longrightarrow>
   ActiveSectors (CalculateTerminationFee env req)
     + ExpiredSectors (CalculateTerminationFee env req)
     = CalculationResult.TotalSectors (CalculateTerminationFee env req) \<and>
   CalculationResult.TotalFee (CalculateTerminationFee env req)
     = active_fee_sum (SectorResults (CalculateTerminationFee env req))"
proof
  assume "CalculationResult.Error (CalculateTerminationFee env req) = []"
  then obtain nv rw pw mi T sectors tf ex srs where
    loop: "fee_loop env nv rw pw mi T sectors (0, 0, []) = Inr (tf, ex, srs)" and
    r: "ActiveSectors (CalculateTerminationFee env req) = int (length sectors) - ex"
       "ExpiredSectors (CalculateTerminationFee env req) = ex"
       "CalculationResult.TotalSectors (CalculateTerminationFee env req) = int (length sectors)"
       "CalculationResult.TotalFee (CalculateTerminationFee env req) = tf"
       "SectorResults (CalculateTerminationFee env req) = srs"
    by (rule CalculateTerminationFee_no_error) simp
  from fee_loop_total [OF loop] have "tf = active_fee_sum srs"
    by (simp add: active_fee_sum_def)
  with r show "ActiveSectors (CalculateTerminationFee env req)
     + ExpiredSectors (CalculateTerminationFee env req)
     = CalculationResult.TotalSectors (CalculateTerminationFee env req) \<and>
   CalculationResult.TotalFee (CalculateTerminationFee env req)
     = active_fee_sum (SectorResults (CalculateTerminationFee env req))"
    by simp
qed

text \<open>
  The example: at epoch 2500000, 100000 epochs after the head of the chain, sector 1
  has expired and sectors 2 and 3 cost 152 and 172.
\<close>

lemmas example_eval =
  example_env_def example_request_def example_sectors_def example_task_def
  getNetworkParameters_def Let_def word_sless_alt word_sle_eq

lemma CalculateTerminationFee_example:
  "CalculateTerminationFee example_env example_request =
     \<lparr>CalculationResult.MinerID = ''f01234'', CalculationResult.TargetEpoch = 2500000,
      CurrentEpoch = 2400000, IsEstimate = True, CalculationResult.TotalSectors = 3,
      ActiveSectors = 2, ExpiredSectors = 1, CalculationResult.TotalFee = 324,
      SectorResults =
        [\<lparr>SectorResult.SectorNumber = 1, Fee = 0, Age = 0, IsExpired = True,
          ExpiredDays = EpochsToDays 500000\<rparr>,
         \<lparr>SectorResult.SectorNumber = 2, Fee = 152, Age = 500000, IsExpired = False,
          ExpiredDays = 0\<rparr>,
         \<lparr>SectorResult.SectorNumber = 3, Fee = 172, Age = 200000, IsExpired = False,
          ExpiredDays = 0\<rparr>],
      CalculationResult.Error = []\<rparr>"
  by (simp add: CalculateTerminationFee_def example_eval)

theorem CalculateTerminationFee_counts_and_total_witness:
  "CalculationResult.Error (CalculateTerminationFee example_env example_request) = [] \<and>
   ActiveSectors (CalculateTerminationFee example_env example_request)
     + ExpiredSectors (CalculateTerminationFee example_env example_request)
     = CalculationResult.TotalSectors (CalculateTerminationFee example_env example_request) \<and>
   CalculationResult.TotalFee (CalculateTerminationFee example_env example_request)
     = active_fee_sum (SectorResults (CalculateTerminationFee example_env example_request)) \<and>
   CalculationResult.TotalFee (CalculateTerminationFee example_env example_request) = 324"
  using CalculateTerminationFee_counts_and_total [of example_env example_request]
  by (simp add: CalculateTerminationFee_example)

section \<open>Rounding to a double is monotone\<close>

lemma bitlen_pos: "0 < n \<Longrightarrow> 0 < bitlen n"
proof (induction n rule: bitlen.induct)
  case (1 n)
  show ?case
  proof (cases "0 < n div 2")
    case True
    with 1 have "0 < bitlen (n div 2)" by simp
    with "1.prems" show ?thesis by (subst bitlen.simps) simp
  next
    case False
    then have "bitlen (n div 2) = 0" by (subst bitlen.simps) simp
    with "1.prems" show ?thesis by (subst bitlen.simps) simp
  qed
qed

lemma bitlen_bounds:
  "0 < n \<Longrightarrow> 2 ^ nat (bitlen n - 1) \<le> n \<and> n < 2 ^ nat (bitlen n)"
proof (induction n rule: bitlen.induct)
  case (1 n)
  show ?case
  proof (cases "0 < n div 2")
    case False
    with "1.prems" have n: "n = 1" by linarith
    have "bitlen 1 = 1" by (simp add: bitlen.simps)
    then show ?thesis by (simp add: n)
  next
    case True
    from "1.IH" [OF "1.prems" True]
    have ih: "2 ^ nat (bitlen (n div 2) - 1) \<le> n div 2" "n div 2 < 2 ^ nat (bitlen (n div 2))"
      by auto
    have bl: "bitlen n = 1 + bitlen (n div 2)" using "1.prems" by (subst bitlen.simps) simp
    have bpos: "0 < bitlen (n div 2)" using True by (rule bitlen_pos)
    then have e: "nat (bitlen (n div 2)) = Suc (nat (bitlen (n div 2) - 1))" by simp
    have "(2::int) ^ nat (bitlen n - 1) = 2 ^ nat (bitlen (n div 2))" by (simp add: bl)
    also have "\<dots> = 2 * 2 ^ nat (bitlen (n div 2) - 1)" by (subst e) simp
    also have "\<dots> \<le> 2 * (n div 2)" using ih(1) by simp
    also have "\<dots> \<le> n" by presburger
    finally have lo: "2 ^ nat (bitlen n - 1) \<le> n" .
    have "nat (bitlen n) = Suc (nat (bitlen (n div 2)))" using bpos by (simp add: bl)
    then have "(2::int) ^ nat (bitlen n) = 2 * 2 ^ nat (bitlen (n div 2))" by simp
    moreover have "n < 2 * (n div 2 + 1)" by presburger
    moreover have "n div 2 + 1 \<le> 2 ^ nat (bitlen (n div 2))" using ih(2) by simp
    ultimately have hi: "n < 2 ^ nat (bitlen n)" by linarith
    from lo hi show ?thesis by simp
  qed
qed

lemma ilog2_bounds:
  assumes "0 < x"
  shows "2 powi (ilog2 x) \<le> x \<and> x < 2 powi (ilog2 x + 1)"
proof (cases "1 \<le> x")
  case True
  define n where "n = \<lfloor>x\<rfloor>"
  have n1: "0 < n" using True by (simp add: n_def)
  have nx: "of_int n \<le> x" "x < of_int n + 1"
    using floor_correct [of x] by (simp_all add: n_def)
  from bitlen_bounds [OF n1] have b: "2 ^ nat (bitlen n - 1) \<le> n" "n < 2 ^ nat (bitlen n)"
    by auto
  have bp: "0 < bitlen n" using n1 by (rule bitlen_pos)
  have e: "ilog2 x = bitlen n - 1" using True by (simp add: ilog2_def n_def)
  have p1: "(2::rat) ^ nat (bitlen n - 1) = of_int (2 ^ nat (bitlen n - 1))"
    and p2: "(2::rat) ^ nat (bitlen n) = of_int (2 ^ nat (bitlen n))" by simp_all
  have "(of_int (2 ^ nat (bitlen n - 1)) :: rat) \<le> of_int n"
    using b(1) by (simp only: of_int_le_iff)
  with nx(1) have lo: "(2::rat) ^ nat (bitlen n - 1) \<le> x" unfolding p1 by linarith
  have "n + 1 \<le> 2 ^ nat (bitlen n)" using b(2) by simp
  then have "(of_int (n + 1) :: rat) \<le> of_int (2 ^ nat (bitlen n))"
    by (simp only: of_int_le_iff)
  then have "(of_int n :: rat) + 1 \<le> of_int (2 ^ nat (bitlen n))" by simp
  with nx(2) have hi: "x < (2::rat) ^ nat (bitlen n)" unfolding p2 by linarith
  have "(2::rat) powi (ilog2 x) = 2 ^ nat (bitlen n - 1)"
    using bp by (simp add: e power_int_def)
  moreover have "(2::rat) powi (ilog2 x + 1) = 2 ^ nat (bitlen n)"
    using bp by (simp add: e power_int_def)
  ultimately show ?thesis using lo hi by simp
next
  case False
  define y where "y = 1 / x"
  have y1: "1 < y" using False assms by (simp add: y_def)
  define m where "m = \<lceil>y\<rceil> - 1"
  have m1: "0 < m" using y1 by (simp add: m_def less_ceiling_iff)
  have my: "of_int m < y" "y \<le> of_int m + 1"
    using ceiling_correct [of y] by (simp_all add: m_def)
  from bitlen_bounds [OF m1] have b: "2 ^ nat (bitlen m - 1) \<le> m" "m < 2 ^ nat (bitlen m)"
    by auto
  have bp: "0 < bitlen m" using m1 by (rule bitlen_pos)
  have e: "ilog2 x = - bitlen m" using False by (simp add: ilog2_def m_def y_def)
  have p1: "(2::rat) ^ nat (bitlen m - 1) = of_int (2 ^ nat (bitlen m - 1))"
    and p2: "(2::rat) ^ nat (bitlen m) = of_int (2 ^ nat (bitlen m))" by simp_all
  have "m + 1 \<le> 2 ^ nat (bitlen m)" using b(2) by simp
  then have "(of_int (m + 1) :: rat) \<le> of_int (2 ^ nat (bitlen m))"
    by (simp only: of_int_le_iff)
  then have "(of_int m :: rat) + 1 \<le> of_int (2 ^ nat (bitlen m))" by simp
  with my(2) have "y \<le> 2 ^ nat (bitlen m)" unfolding p2 by linarith
  then have lo: "1 / 2 ^ nat (bitlen m) \<le> x"
    using assms by (simp add: y_def field_simps)
  have "(of_int (2 ^ nat (bitlen m - 1)) :: rat) \<le> of_int m"
    using b(1) by (simp only: of_int_le_iff)
  with my(1) have "(2::rat) ^ nat (bitlen m - 1) < y" unfolding p1 by linarith
  then have hi: "x < 1 / 2 ^ nat (bitlen m - 1)"
    using assms by (simp add: y_def field_simps)
  have "(2::rat) powi (ilog2 x) = 1 / 2 ^ nat (bitlen m)"
    using bp by (simp add: e power_int_def field_simps)
  moreover have "(2::rat) powi (ilog2 x + 1) = 1 / 2 ^ nat (bitlen m - 1)"
  proof (cases "bitlen m = 1")
    case True
    then show ?thesis by (simp add: e)
  next
    case False
    with bp have "- bitlen m + 1 < 0" by simp
    then show ?thesis by (simp add: e power_int_def field_simps)
  qed
  ultimately show ?thesis using lo hi by simp
qed

lemma ilog2_mono:
  assumes "0 < x" "x \<le> y"
  shows "ilog2 x \<le> ilog2 y"
proof (rule ccontr)
  assume "\<not> ilog2 x \<le> ilog2 y"
  then have "ilog2 y + 1 \<le> ilog2 x" by simp
  then have "(2::rat) powi (ilog2 y + 1) \<le> 2 powi (ilog2 x)"
    by (intro power_int_increasing) simp_all
  with ilog2_bounds [of x] ilog2_bounds [of y] assms show False by simp
qed

lemma roundHalfEven_bounds: "\<lfloor>q\<rfloor> \<le> roundHalfEven q \<and> roundHalfEven q \<le> \<lfloor>q\<rfloor> + 1"
  by (simp add: roundHalfEven_def Let_def)

lemma roundHalfEven_of_int [simp]: "roundHalfEven (of_int k) = k"
  by (simp add: roundHalfEven_def Let_def)

lemma roundHalfEven_mono:
  assumes "p \<le> q"
  shows "roundHalfEven p \<le> roundHalfEven q"
proof (cases "\<lfloor>p\<rfloor> = \<lfloor>q\<rfloor>")
  case True
  have "p - of_int \<lfloor>q\<rfloor> \<le> q - of_int \<lfloor>q\<rfloor>" using assms by simp
  then show ?thesis using assms by (auto simp: roundHalfEven_def Let_def True)
next
  case False
  with assms have "\<lfloor>p\<rfloor> + 1 \<le> \<lfloor>q\<rfloor>" using floor_mono [OF assms] by linarith
  with roundHalfEven_bounds [of p] roundHalfEven_bounds [of q] show ?thesis by linarith
qed

lemma roundHalfEven_ge: "of_int k \<le> q \<Longrightarrow> k \<le> roundHalfEven q"
  using roundHalfEven_mono [of "of_int k" q] by simp

lemma roundHalfEven_le: "q \<le> of_int k \<Longrightarrow> roundHalfEven q \<le> k"
  using roundHalfEven_mono [of q "of_int k"] by simp

lemma roundHalfEven_near: "of_int (roundHalfEven q) \<le> q + 1 / 2"
proof (cases "q - of_int \<lfloor>q\<rfloor> < 1 / 2")
  case True
  then have "roundHalfEven q = \<lfloor>q\<rfloor>" by (simp add: roundHalfEven_def Let_def)
  moreover have "of_int \<lfloor>q\<rfloor> \<le> q + 1 / 2"
    using of_int_floor_le [of q] by linarith
  ultimately show ?thesis by simp
next
  case False
  have "roundHalfEven q \<le> \<lfloor>q\<rfloor> + 1" using roundHalfEven_bounds [of q] by simp
  then have "(of_int (roundHalfEven q) :: rat) \<le> of_int (\<lfloor>q\<rfloor> + 1)"
    by (simp only: of_int_le_iff)
  with False show ?thesis by simp
qed

text \<open>A positive number is rounded within its binade, and by at most a relative \<open>2^-53\<close>.\<close>

lemma rnd_pos_bounds:
  assumes "0 < x"
  shows "2 powi (ilog2 x) \<le> rnd x \<and> rnd x \<le> 2 powi (ilog2 x + 1)"
proof -
  define u :: rat where "u = 2 powi (ilog2 x - 52)"
  have u0: "0 < u" by (simp add: u_def)
  have r: "rnd x = of_int (roundHalfEven (x / u)) * u"
    using assms by (simp add: rnd_def Let_def u_def)
  have lo: "2 powi (ilog2 x) = (2 ^ 52) * u" and hi: "2 powi (ilog2 x + 1) = (2 ^ 53) * u"
    by (simp_all add: u_def power_int_diff power_int_add)
  from ilog2_bounds [OF assms] have "2 ^ 52 * u \<le> x" "x \<le> 2 ^ 53 * u"
    by (simp_all add: lo hi)
  then have q: "of_int (2 ^ 52) \<le> x / u" "x / u \<le> of_int (2 ^ 53)"
    using u0 by (simp_all add: field_simps)
  have "2 ^ 52 \<le> roundHalfEven (x / u)"
    using q(1) by (rule roundHalfEven_ge)
  moreover have "roundHalfEven (x / u) \<le> 2 ^ 53"
    using q(2) by (rule roundHalfEven_le)
  ultimately have "(2 ^ 52 :: rat) \<le> of_int (roundHalfEven (x / u))"
    "of_int (roundHalfEven (x / u)) \<le> (2 ^ 53 :: rat)"
    by (metis of_int_le_iff of_int_numeral of_int_power)+
  then show ?thesis unfolding r lo hi using u0 by simp
qed

lemma rnd_upper:
  assumes "0 < x"
  shows "rnd x \<le> x * (1001 / 1000)"
proof -
  define u :: rat where "u = 2 powi (ilog2 x - 52)"
  have u0: "0 < u" by (simp add: u_def)
  have r: "rnd x = of_int (roundHalfEven (x / u)) * u"
    using assms by (simp add: rnd_def Let_def u_def)
  have "2 powi (ilog2 x) = (2 ^ 52) * u"
    by (simp add: u_def power_int_diff)
  with ilog2_bounds [OF assms] have ux: "2 ^ 52 * u \<le> x" by simp
  have "rnd x \<le> (x / u + 1 / 2) * u"
    unfolding r using roundHalfEven_near [of "x / u"] u0 by (simp only: mult_le_cancel_right_pos)
  also have "\<dots> = x + u / 2" using u0 by (simp add: field_simps)
  also have "\<dots> \<le> x * (1001 / 1000)" using ux u0 by simp
  finally show ?thesis .
qed

lemma rnd_mono_pos:
  assumes "0 < x" "x \<le> y"
  shows "rnd x \<le> rnd y"
proof (cases "ilog2 x = ilog2 y")
  case True
  define u :: rat where "u = 2 powi (ilog2 y - 52)"
  have u0: "0 < u" by (simp add: u_def)
  have "rnd x = of_int (roundHalfEven (x / u)) * u" "rnd y = of_int (roundHalfEven (y / u)) * u"
    using assms by (simp_all add: rnd_def Let_def u_def True)
  moreover have "roundHalfEven (x / u) \<le> roundHalfEven (y / u)"
    using assms u0 by (intro roundHalfEven_mono) (simp add: field_simps)
  ultimately show ?thesis using u0 by simp
next
  case False
  with ilog2_mono [OF assms] have "ilog2 x + 1 \<le> ilog2 y" by simp
  then have "(2::rat) powi (ilog2 x + 1) \<le> 2 powi (ilog2 y)"
    by (intro power_int_increasing) simp_all
  moreover have "0 < y" using assms by simp
  ultimately show ?thesis
    using rnd_pos_bounds [OF assms(1)] rnd_pos_bounds [of y] by linarith
qed

lemma rnd_0 [simp]: "rnd 0 = 0"
  by (simp add: rnd_def)

lemma rnd_minus: "rnd (- x) = - rnd x"
  by (simp add: rnd_def Let_def)

lemma rnd_pos: "0 < x \<Longrightarrow> 0 < rnd x"
proof -
  assume "0 < x"
  from rnd_pos_bounds [OF this] have "2 powi (ilog2 x) \<le> rnd x" by simp
  moreover have "(0::rat) < 2 powi (ilog2 x)" by simp
  ultimately show ?thesis by linarith
qed

lemma rnd_mono:
  assumes "x \<le> y"
  shows "rnd x \<le> rnd y"
proof -
  consider "0 < x" | "y < 0" | "x \<le> 0" "0 \<le> y" by linarith
  then show ?thesis
  proof cases
    case 1
    then show ?thesis using assms by (rule rnd_mono_pos)
  next
    case 2
    then have "rnd (- y) \<le> rnd (- x)" using assms by (intro rnd_mono_pos) simp_all
    then show ?thesis by (simp add: rnd_minus)
  next
    case 3
    have "rnd x \<le> 0"
    proof (cases "x = 0")
      case True then show ?thesis by simp
    next
      case False
      with 3 have "0 < rnd (- x)" by (intro rnd_pos) simp
      then show ?thesis by (simp add: rnd_minus)
    qed
    moreover have "0 \<le> rnd y"
    proof (cases "y = 0")
      case True then show ?thesis by simp
    next
      case False
      with 3 have "0 < rnd y" by (intro rnd_pos) simp
      then show ?thesis by simp
    qed
    ultimately show ?thesis by simp
  qed
qed

section \<open>Network parameter projection: the two scaling factors\<close>

text \<open>Values of the rounded operations at the points the bounds start from.\<close>

lemma rnd_1: "rnd 1 = 1" by code_simp
lemma rnd_10: "rnd 10 = 10" by code_simp
lemma rnd_11: "rnd 11 = 11" by code_simp
lemma rnd_1000: "rnd 1000 = 1000" by code_simp

lemma growth_at_10:
  "\<lfloor>rnd (rnd (1 + rnd (f64_0_0001 * 10)) * 1000)\<rfloor> = 1000"
  "\<lfloor>rnd (rnd (f64_0_0001 * 10 + 1) * 1000)\<rfloor> = 1000"
  by code_simp+

lemma growth_at_11:
  "\<lfloor>rnd (rnd (1 + rnd (f64_0_0001 * 11)) * 1000)\<rfloor> = 1001"
  "\<lfloor>rnd (rnd (f64_0_0001 * 11 + 1) * 1000)\<rfloor> = 1001"
  by code_simp+

lemma decay_at_1:
  "\<lfloor>rnd (rnd (1 - rnd (f64_0_00005 * 1)) * 1000)\<rfloor> = 999"
  "\<lfloor>rnd (rnd (- f64_0_00005 * 1 + 1) * 1000)\<rfloor> = 999"
  "f64_0_1 \<le> rnd (1 - rnd (f64_0_00005 * 1))"
  "f64_0_1 \<le> rnd (- f64_0_00005 * 1 + 1)"
  by code_simp+

lemma decay_floor: "rnd (f64_0_1 * 1000) = 100"
  by code_simp

text \<open>
  The two ways of building the program differ: at offset 3640 the factor for power is
  1363 thousandths when the product is rounded first and 1364 when it is not.
\<close>

lemma growth_at_3640:
  "\<lfloor>rnd (rnd (1 + rnd (f64_0_0001 * 3640)) * 1000)\<rfloor> = 1363"
  "\<lfloor>rnd (rnd (f64_0_0001 * 3640 + 1) * 1000)\<rfloor> = 1364"
  by code_simp+

lemma float64_of_int64_bounds:
  assumes "0 <s n"
  shows "1 \<le> float64_of_int64 n" and "float64_of_int64 n \<le> 9223372036854775807 * (1001 / 1000)"
    and "11 \<le> sint n \<Longrightarrow> 11 \<le> float64_of_int64 n"
    and "sint n \<le> 10 \<Longrightarrow> float64_of_int64 n \<le> 10"
proof -
  note [simp del] = of_int_sint
  have n: "1 \<le> sint n" "sint n \<le> 9223372036854775807"
    using assms sint_range64 [of n] by (simp_all add: word_sless_alt)
  have "rnd 1 \<le> rnd (of_int (sint n))" using n(1) by (intro rnd_mono) simp
  then show "1 \<le> float64_of_int64 n" by (simp add: float64_of_int64_def rnd_1)
  have "(0::rat) < of_int (sint n)" using n(1) by simp
  from rnd_upper [OF this] have "rnd (of_int (sint n)) \<le> of_int (sint n) * (1001 / 1000)" .
  also have "\<dots> \<le> 9223372036854775807 * (1001 / 1000)" using n(2) by simp
  finally show "float64_of_int64 n \<le> 9223372036854775807 * (1001 / 1000)"
    by (simp add: float64_of_int64_def)
  show "11 \<le> float64_of_int64 n" if "11 \<le> sint n"
  proof -
    have "rnd 11 \<le> rnd (of_int (sint n))" using that by (intro rnd_mono) simp
    then show ?thesis by (simp add: float64_of_int64_def rnd_11)
  qed
  show "float64_of_int64 n \<le> 10" if "sint n \<le> 10"
  proof -
    have "rnd (of_int (sint n)) \<le> rnd 10" using that by (intro rnd_mono) simp
    then show ?thesis by (simp add: float64_of_int64_def rnd_10)
  qed
qed

text \<open>The growth factor, whichever way it is rounded.\<close>

lemma growthFactor_bounds:
  fixes fused :: bool
  assumes "0 <s n"
  defines "growthFactor \<equiv>
             (if fused then f64_fma f64_0_0001 (float64_of_int64 n) 1
              else f64_add 1 (f64_mul f64_0_0001 (float64_of_int64 n)))"
  shows "1 \<le> growthFactor"
    and "growthFactor
           \<le> (1 + (1 / 9999) * (9223372036854775807 * (1001 / 1000)) * (1001 / 1000))
               * (1001 / 1000)"
    and "11 \<le> sint n \<Longrightarrow>
           (if fused then rnd (f64_0_0001 * 11 + 1) else rnd (1 + rnd (f64_0_0001 * 11)))
             \<le> growthFactor"
    and "sint n \<le> 10 \<Longrightarrow>
           growthFactor
             \<le> (if fused then rnd (f64_0_0001 * 10 + 1) else rnd (1 + rnd (f64_0_0001 * 10)))"
proof -
  let ?f = "float64_of_int64 n"
  let ?B = "(1 + (1 / 9999) * (9223372036854775807 * (1001 / 1000)) * (1001 / 1000))
               * (1001 / 1000) :: rat"
  note fb = float64_of_int64_bounds [OF assms(1)]
  have c0: "0 < f64_0_0001" and c1: "f64_0_0001 \<le> 1 / 9999" by (simp_all add: f64_0_0001_def)
  have cf: "0 < f64_0_0001 * ?f" using c0 fb(1) by simp
  have cf1: "f64_0_0001 * ?f \<le> (1 / 9999) * (9223372036854775807 * (1001 / 1000))"
    using c0 c1 fb(1,2) by (intro mult_mono) simp_all
  show "1 \<le> growthFactor"
  proof (cases fused)
    case True
    have "rnd 1 \<le> rnd (f64_0_0001 * ?f + 1)" using cf by (intro rnd_mono) simp
    with True show ?thesis by (simp add: growthFactor_def f64_fma_def rnd_1)
  next
    case False
    have "0 < rnd (f64_0_0001 * ?f)" using cf by (rule rnd_pos)
    then have "rnd 1 \<le> rnd (1 + rnd (f64_0_0001 * ?f))" by (intro rnd_mono) simp
    with False show ?thesis by (simp add: growthFactor_def f64_add_def f64_mul_def rnd_1)
  qed
  show "growthFactor \<le> ?B"
  proof (cases fused)
    case True
    have "rnd (f64_0_0001 * ?f + 1) \<le> (f64_0_0001 * ?f + 1) * (1001 / 1000)"
      using cf by (intro rnd_upper) simp
    also have "\<dots> \<le> (1 + (1 / 9999) * (9223372036854775807 * (1001 / 1000))) * (1001 / 1000)"
      using cf1 by simp
    also have "\<dots> \<le> ?B" by simp
    finally show ?thesis using True by (simp add: growthFactor_def f64_fma_def)
  next
    case False
    let ?p = "rnd (f64_0_0001 * ?f)"
    have p0: "0 < ?p" using cf by (rule rnd_pos)
    have "?p \<le> f64_0_0001 * ?f * (1001 / 1000)" using cf by (rule rnd_upper)
    also have "\<dots> \<le> (1 / 9999) * (9223372036854775807 * (1001 / 1000)) * (1001 / 1000)"
      using cf1 by simp
    finally have p1: "?p \<le> (1 / 9999) * (9223372036854775807 * (1001 / 1000)) * (1001 / 1000)" .
    have "rnd (1 + ?p) \<le> (1 + ?p) * (1001 / 1000)" using p0 by (intro rnd_upper) simp
    also have "\<dots> \<le> ?B" using p1 by simp
    finally show ?thesis using False by (simp add: growthFactor_def f64_add_def f64_mul_def)
  qed
  show "(if fused then rnd (f64_0_0001 * 11 + 1) else rnd (1 + rnd (f64_0_0001 * 11)))
          \<le> growthFactor" if "11 \<le> sint n"
  proof -
    have le: "f64_0_0001 * 11 \<le> f64_0_0001 * ?f" using c0 fb(3) [OF that] by simp
    show ?thesis
    proof (cases fused)
      case True
      have "rnd (f64_0_0001 * 11 + 1) \<le> rnd (f64_0_0001 * ?f + 1)"
        using le by (intro rnd_mono) simp
      with True show ?thesis by (simp add: growthFactor_def f64_fma_def)
    next
      case False
      have "rnd (f64_0_0001 * 11) \<le> rnd (f64_0_0001 * ?f)" using le by (rule rnd_mono)
      then have "rnd (1 + rnd (f64_0_0001 * 11)) \<le> rnd (1 + rnd (f64_0_0001 * ?f))"
        by (intro rnd_mono) simp
      with False show ?thesis by (simp add: growthFactor_def f64_add_def f64_mul_def)
    qed
  qed
  show "growthFactor
          \<le> (if fused then rnd (f64_0_0001 * 10 + 1) else rnd (1 + rnd (f64_0_0001 * 10)))"
    if "sint n \<le> 10"
  proof -
    have le: "f64_0_0001 * ?f \<le> f64_0_0001 * 10" using c0 fb(4) [OF that] by simp
    show ?thesis
    proof (cases fused)
      case True
      have "rnd (f64_0_0001 * ?f + 1) \<le> rnd (f64_0_0001 * 10 + 1)"
        using le by (intro rnd_mono) simp
      with True show ?thesis by (simp add: growthFactor_def f64_fma_def)
    next
      case False
      have "rnd (f64_0_0001 * ?f) \<le> rnd (f64_0_0001 * 10)" using le by (rule rnd_mono)
      then have "rnd (1 + rnd (f64_0_0001 * ?f)) \<le> rnd (1 + rnd (f64_0_0001 * 10))"
        by (intro rnd_mono) simp
      with False show ?thesis by (simp add: growthFactor_def f64_add_def f64_mul_def)
    qed
  qed
qed

text \<open>
  The factor for power, in thousandths: at least 1000, exactly 1000 up to offset 10,
  and at least 1001 from offset 11 on.
\<close>

lemma growth_bounds:
  fixes fused :: bool
  assumes "0 <s n"
  defines "growth \<equiv> sint (int64_of_float64
             (f64_mul (if fused then f64_fma f64_0_0001 (float64_of_int64 n) 1
                       else f64_add 1 (f64_mul f64_0_0001 (float64_of_int64 n))) 1000))"
  shows "1000 \<le> growth" and "11 \<le> sint n \<Longrightarrow> 1001 \<le> growth"
    and "sint n \<le> 10 \<Longrightarrow> growth = 1000"
proof -
  let ?s = "if fused then f64_fma f64_0_0001 (float64_of_int64 n) 1
            else f64_add 1 (f64_mul f64_0_0001 (float64_of_int64 n))"
  let ?v = "rnd (?s * 1000)"
  note sb = growthFactor_bounds [OF assms(1), of fused]
  have s0: "1 \<le> ?s" by (rule sb(1))
  have "rnd 1000 \<le> ?v" using s0 by (intro rnd_mono) simp
  then have v0: "1000 \<le> ?v" by (simp only: rnd_1000)
  have "0 < ?s * 1000" using s0 by simp
  then have "?v \<le> ?s * 1000 * (1001 / 1000)" by (rule rnd_upper)
  also have "\<dots> \<le> (1 + (1 / 9999) * (9223372036854775807 * (1001 / 1000)) * (1001 / 1000))
                 * (1001 / 1000) * 1000 * (1001 / 1000)"
    using sb(2) by simp
  also have "\<dots> < 9223372036854775807" by simp
  finally have v1: "?v < 9223372036854775807" .
  have fl: "1000 \<le> \<lfloor>?v\<rfloor>" "\<lfloor>?v\<rfloor> \<le> 9223372036854775807"
    using v0 v1 by (simp_all add: le_floor_iff floor_le_iff)
  have "0 \<le> ?v" using v0 by linarith
  then have g: "growth = \<lfloor>?v\<rfloor>"
    using fl by (simp add: growth_def int64_of_float64_def f64_mul_def sint_word_of_int64)
  show "1000 \<le> growth" using fl g by simp
  show "1001 \<le> growth" if "11 \<le> sint n"
  proof -
    let ?a = "if fused then rnd (f64_0_0001 * 11 + 1) else rnd (1 + rnd (f64_0_0001 * 11))"
    have "rnd (?a * 1000) \<le> ?v" using sb(3) [OF that] by (intro rnd_mono) simp
    then have "\<lfloor>rnd (?a * 1000)\<rfloor> \<le> \<lfloor>?v\<rfloor>" by (rule floor_mono)
    moreover have "\<lfloor>rnd (?a * 1000)\<rfloor> = 1001"
      by (cases fused) (simp_all only: if_True if_False growth_at_11)
    ultimately have "1001 \<le> \<lfloor>?v\<rfloor>" by (simp only:)
    then show ?thesis by (simp only: g)
  qed
  show "growth = 1000" if "sint n \<le> 10"
  proof -
    let ?a = "if fused then rnd (f64_0_0001 * 10 + 1) else rnd (1 + rnd (f64_0_0001 * 10))"
    have "?v \<le> rnd (?a * 1000)" using sb(4) [OF that] by (intro rnd_mono) simp
    then have "\<lfloor>?v\<rfloor> \<le> \<lfloor>rnd (?a * 1000)\<rfloor>" by (rule floor_mono)
    moreover have "\<lfloor>rnd (?a * 1000)\<rfloor> = 1000"
      by (cases fused) (simp_all only: if_True if_False growth_at_10)
    ultimately have "\<lfloor>?v\<rfloor> \<le> 1000" by (simp only:)
    with fl(1) have "\<lfloor>?v\<rfloor> = 1000" by linarith
    then show ?thesis by (simp only: g)
  qed
qed

text \<open>The factor for reward, in thousandths: between 100 and 999.\<close>

lemma decay_bounds:
  fixes fused :: bool
  assumes "0 <s n"
  defines "decayFactor0 \<equiv>
             (if fused then f64_fma (- f64_0_00005) (float64_of_int64 n) 1
              else f64_sub 1 (f64_mul f64_0_00005 (float64_of_int64 n)))"
  defines "decay \<equiv> sint (int64_of_float64
             (f64_mul (if decayFactor0 < f64_0_1 then f64_0_1 else decayFactor0) 1000))"
  shows "100 \<le> decay \<and> decay \<le> 999"
proof -
  let ?f = "float64_of_int64 n"
  define top where
    "top = (if fused then rnd (- f64_0_00005 * 1 + 1) else rnd (1 - rnd (f64_0_00005 * 1)))"
  let ?d = "if decayFactor0 < f64_0_1 then f64_0_1 else decayFactor0"
  let ?w = "rnd (?d * 1000)"
  note fb = float64_of_int64_bounds [OF assms(1)]
  have c0: "0 < f64_0_00005" by (simp add: f64_0_00005_def)
  have le: "f64_0_00005 * 1 \<le> f64_0_00005 * ?f" using c0 fb(1) by simp
  have d0: "decayFactor0 \<le> top"
  proof (cases fused)
    case True
    have "rnd (- f64_0_00005 * ?f + 1) \<le> rnd (- f64_0_00005 * 1 + 1)"
      using le by (intro rnd_mono) simp
    with True show ?thesis by (simp add: decayFactor0_def f64_fma_def top_def)
  next
    case False
    have "rnd (f64_0_00005 * 1) \<le> rnd (f64_0_00005 * ?f)" using le by (rule rnd_mono)
    then have "rnd (1 - rnd (f64_0_00005 * ?f)) \<le> rnd (1 - rnd (f64_0_00005 * 1))"
      by (intro rnd_mono) simp
    with False show ?thesis by (simp add: decayFactor0_def f64_sub_def f64_mul_def top_def)
  qed
  have top: "f64_0_1 \<le> top" "\<lfloor>rnd (top * 1000)\<rfloor> = 999"
    unfolding top_def by (cases fused; simp only: if_True if_False decay_at_1)+
  have lo: "f64_0_1 \<le> ?d" by simp
  have hi: "?d \<le> top" using d0 top(1) by simp
  have "rnd (f64_0_1 * 1000) \<le> ?w" using lo by (intro rnd_mono) simp
  then have w0: "100 \<le> ?w" by (simp only: decay_floor)
  have "?w \<le> rnd (top * 1000)" using hi by (intro rnd_mono) simp
  then have "\<lfloor>?w\<rfloor> \<le> \<lfloor>rnd (top * 1000)\<rfloor>" by (rule floor_mono)
  then have w1: "\<lfloor>?w\<rfloor> \<le> 999" by (simp only: top(2))
  have w2: "100 \<le> \<lfloor>?w\<rfloor>" using w0 by (simp add: le_floor_iff)
  have "0 \<le> ?w" using w0 by linarith
  then have "decay = \<lfloor>?w\<rfloor>"
    using w1 w2 by (simp add: decay_def int64_of_float64_def f64_mul_def sint_word_of_int64)
  with w1 w2 show ?thesis by simp
qed

lemma big_Div_1000: "big_Div a 1000 = a div 1000"
  by (simp add: big_Div_def)

text \<open>
  C2, as the code has it, for both ways of building the program. For a positive offset
  and positive positions, the projected power position is never less than the original
  one; it is the original one for the offsets 1 to 10, and strictly greater as soon as
  the offset is at least 11 epochs and the position at least 1000. The projected
  reward position is strictly less than the original one and at least a tenth of it,
  rounded down. This holds for every positive offset, ten years (10512000 epochs) and
  the largest epoch included.
\<close>

theorem AdjustNetworkParams_positions:
  "0 <s offset \<and> 0 < PositionEstimate reward \<and> 0 < PositionEstimate power' \<longrightarrow>
   PositionEstimate power'
     \<le> PositionEstimate (snd (AdjustNetworkParams fused reward power' offset)) \<and>
   (sint offset \<le> 10 \<longrightarrow>
      PositionEstimate (snd (AdjustNetworkParams fused reward power' offset))
        = PositionEstimate power') \<and>
   (11 \<le> sint offset \<and> 1000 \<le> PositionEstimate power' \<longrightarrow>
      PositionEstimate power'
        < PositionEstimate (snd (AdjustNetworkParams fused reward power' offset))) \<and>
   PositionEstimate (fst (AdjustNetworkParams fused reward power' offset))
     < PositionEstimate reward \<and>
   PositionEstimate reward div 10
     \<le> PositionEstimate (fst (AdjustNetworkParams fused reward power' offset))"
proof (intro impI, elim conjE)
  assume off: "0 <s offset" and r: "0 < PositionEstimate reward"
    and p: "0 < PositionEstimate power'"
  define growth where "growth = sint (int64_of_float64
             (f64_mul (if fused then f64_fma f64_0_0001 (float64_of_int64 offset) 1
                       else f64_add 1 (f64_mul f64_0_0001 (float64_of_int64 offset))) 1000))"
  define decayFactor0 where
    "decayFactor0 = (if fused then f64_fma (- f64_0_00005) (float64_of_int64 offset) 1
                     else f64_sub 1 (f64_mul f64_0_00005 (float64_of_int64 offset)))"
  define decay where "decay = sint (int64_of_float64
             (f64_mul (if decayFactor0 < f64_0_1 then f64_0_1 else decayFactor0) 1000))"
  have g: "1000 \<le> growth" "11 \<le> sint offset \<Longrightarrow> 1001 \<le> growth"
    "sint offset \<le> 10 \<Longrightarrow> growth = 1000"
    unfolding growth_def
    by (rule growth_bounds(1) [OF off], rule growth_bounds(2) [OF off], assumption,
        rule growth_bounds(3) [OF off], assumption)
  have d: "100 \<le> decay" "decay \<le> 999"
    using decay_bounds [OF off, of fused] unfolding decay_def decayFactor0_def by simp_all
  have nle: "\<not> offset \<le>s 0" using off by (simp add: word_sless_alt word_sle_eq)
  have P: "PositionEstimate (snd (AdjustNetworkParams fused reward power' offset))
             = PositionEstimate power' * growth div 1000"
    and R: "PositionEstimate (fst (AdjustNetworkParams fused reward power' offset))
             = PositionEstimate reward * decay div 1000"
    using nle
    by (simp_all add: AdjustNetworkParams_def Let_def big_Div_1000 growth_def decay_def
        decayFactor0_def)
  have "PositionEstimate power' * 1000 \<le> PositionEstimate power' * growth"
    using p g(1) by simp
  then have "PositionEstimate power' * 1000 div 1000 \<le> PositionEstimate power' * growth div 1000"
    by (rule zdiv_mono1) simp
  then have c1: "PositionEstimate power'
      \<le> PositionEstimate (snd (AdjustNetworkParams fused reward power' offset))"
    by (simp add: P)
  have c0: "PositionEstimate (snd (AdjustNetworkParams fused reward power' offset))
      = PositionEstimate power'" if "sint offset \<le> 10"
    using g(3) [OF that] by (simp add: P)
  have c2: "PositionEstimate power'
      < PositionEstimate (snd (AdjustNetworkParams fused reward power' offset))"
    if "11 \<le> sint offset \<and> 1000 \<le> PositionEstimate power'"
  proof -
    have "PositionEstimate power' * 1001 \<le> PositionEstimate power' * growth"
      using p g(2) that by simp
    moreover have "(PositionEstimate power' + 1) * 1000 \<le> PositionEstimate power' * 1001"
      using that by simp
    ultimately have "(PositionEstimate power' + 1) * 1000 \<le> PositionEstimate power' * growth"
      by (rule order_trans [rotated])
    then have "(PositionEstimate power' + 1) * 1000 div 1000
        \<le> PositionEstimate power' * growth div 1000"
      by (rule zdiv_mono1) simp
    then show ?thesis by (simp add: P)
  qed
  have "PositionEstimate reward * decay \<le> PositionEstimate reward * 999"
    using r d(2) by simp
  then have "PositionEstimate reward * decay < PositionEstimate reward * 1000"
    using r by linarith
  then have c3: "PositionEstimate (fst (AdjustNetworkParams fused reward power' offset))
      < PositionEstimate reward"
    by (simp add: R div_less_iff_less_mult)
  have "PositionEstimate reward * 100 \<le> PositionEstimate reward * decay"
    using r d(1) by simp
  then have "PositionEstimate reward * 100 div 1000 \<le> PositionEstimate reward * decay div 1000"
    by (rule zdiv_mono1) simp
  moreover have "PositionEstimate reward * 100 div 1000 = PositionEstimate reward div 10"
    by simp
  ultimately have c4: "PositionEstimate reward div 10
      \<le> PositionEstimate (fst (AdjustNetworkParams fused reward power' offset))"
    by (simp add: R)
  from c0 c1 c2 c3 c4 show "PositionEstimate power'
     \<le> PositionEstimate (snd (AdjustNetworkParams fused reward power' offset)) \<and>
   (sint offset \<le> 10 \<longrightarrow>
      PositionEstimate (snd (AdjustNetworkParams fused reward power' offset))
        = PositionEstimate power') \<and>
   (11 \<le> sint offset \<and> 1000 \<le> PositionEstimate power' \<longrightarrow>
      PositionEstimate power'
        < PositionEstimate (snd (AdjustNetworkParams fused reward power' offset))) \<and>
   PositionEstimate (fst (AdjustNetworkParams fused reward power' offset))
     < PositionEstimate reward \<and>
   PositionEstimate reward div 10
     \<le> PositionEstimate (fst (AdjustNetworkParams fused reward power' offset))"
    by blast
qed

text \<open>
  The estimates of the repository's test, projected by one day, by one epoch and by
  3640 epochs, the two builds side by side.
\<close>

lemma AdjustNetworkParams_one_day:
  "AdjustNetworkParams False \<lparr>PositionEstimate = 1000, VelocityEstimate = 100\<rparr>
     \<lparr>PositionEstimate = 2000, VelocityEstimate = 200\<rparr> 2880 =
   (\<lparr>PositionEstimate = 856, VelocityEstimate = 85\<rparr>,
    \<lparr>PositionEstimate = 2576, VelocityEstimate = 257\<rparr>)"
  "AdjustNetworkParams True \<lparr>PositionEstimate = 1000, VelocityEstimate = 100\<rparr>
     \<lparr>PositionEstimate = 2000, VelocityEstimate = 200\<rparr> 2880 =
   (\<lparr>PositionEstimate = 856, VelocityEstimate = 85\<rparr>,
    \<lparr>PositionEstimate = 2576, VelocityEstimate = 257\<rparr>)"
  by code_simp+

lemma AdjustNetworkParams_one_epoch:
  "AdjustNetworkParams False \<lparr>PositionEstimate = 1000, VelocityEstimate = 100\<rparr>
     \<lparr>PositionEstimate = 2000, VelocityEstimate = 200\<rparr> 1 =
   (\<lparr>PositionEstimate = 999, VelocityEstimate = 99\<rparr>,
    \<lparr>PositionEstimate = 2000, VelocityEstimate = 200\<rparr>)"
  "AdjustNetworkParams True \<lparr>PositionEstimate = 1000, VelocityEstimate = 100\<rparr>
     \<lparr>PositionEstimate = 2000, VelocityEstimate = 200\<rparr> 1 =
   (\<lparr>PositionEstimate = 999, VelocityEstimate = 99\<rparr>,
    \<lparr>PositionEstimate = 2000, VelocityEstimate = 200\<rparr>)"
  by code_simp+

lemma AdjustNetworkParams_builds_differ:
  "PositionEstimate (snd (AdjustNetworkParams False
       \<lparr>PositionEstimate = 1000, VelocityEstimate = 100\<rparr>
       \<lparr>PositionEstimate = 2000, VelocityEstimate = 200\<rparr> 3640)) = 2726"
  "PositionEstimate (snd (AdjustNetworkParams True
       \<lparr>PositionEstimate = 1000, VelocityEstimate = 100\<rparr>
       \<lparr>PositionEstimate = 2000, VelocityEstimate = 200\<rparr> 3640)) = 2728"
  by code_simp+

text \<open>
  The side conditions of the statement are needed: a power position below 1000 can stay
  the same at offset 11, and a tenth of the reward is kept only rounded down.
\<close>

lemma AdjustNetworkParams_small_positions:
  "PositionEstimate (snd (AdjustNetworkParams False
       \<lparr>PositionEstimate = 15, VelocityEstimate = 1\<rparr>
       \<lparr>PositionEstimate = 999, VelocityEstimate = 1\<rparr> 11)) = 999"
  "PositionEstimate (fst (AdjustNetworkParams False
       \<lparr>PositionEstimate = 15, VelocityEstimate = 1\<rparr>
       \<lparr>PositionEstimate = 999, VelocityEstimate = 1\<rparr> 10512000)) = 1"
  by code_simp+

theorem AdjustNetworkParams_positions_witness:
  "(0 :: ChainEpoch) <s 2880 \<and> 11 \<le> sint (2880 :: ChainEpoch) \<and>
   2000 < PositionEstimate (snd (AdjustNetworkParams True
       \<lparr>PositionEstimate = 1000, VelocityEstimate = 100\<rparr>
       \<lparr>PositionEstimate = 2000, VelocityEstimate = 200\<rparr> 2880)) \<and>
   PositionEstimate (fst (AdjustNetworkParams True
       \<lparr>PositionEstimate = 1000, VelocityEstimate = 100\<rparr>
       \<lparr>PositionEstimate = 2000, VelocityEstimate = 200\<rparr> 2880)) < 1000 \<and>
   100 \<le> PositionEstimate (fst (AdjustNetworkParams True
       \<lparr>PositionEstimate = 1000, VelocityEstimate = 100\<rparr>
       \<lparr>PositionEstimate = 2000, VelocityEstimate = 200\<rparr> 2880)) \<and>
   (0 :: ChainEpoch) <s 7 \<and> sint (7 :: ChainEpoch) \<le> 10 \<and>
   PositionEstimate (snd (AdjustNetworkParams False
       \<lparr>PositionEstimate = 1000, VelocityEstimate = 100\<rparr>
       \<lparr>PositionEstimate = 2000, VelocityEstimate = 200\<rparr> 7)) = 2000"
  using AdjustNetworkParams_positions
    [of 2880 "\<lparr>PositionEstimate = 1000, VelocityEstimate = 100\<rparr>"
       "\<lparr>PositionEstimate = 2000, VelocityEstimate = 200\<rparr>" True]
    AdjustNetworkParams_positions
    [of 7 "\<lparr>PositionEstimate = 1000, VelocityEstimate = 100\<rparr>"
       "\<lparr>PositionEstimate = 2000, VelocityEstimate = 200\<rparr>" False]
  by (simp add: word_sless_alt)

text \<open>
  C2 as stated fails for the offsets 1 to 10, on either build: the growth factor times
  1000 is cut to the integer 1000 and the power position is unchanged.
\<close>

theorem AdjustNetworkParams_positions_counterexample:
  "\<not> 2000 < PositionEstimate (snd (AdjustNetworkParams False
       \<lparr>PositionEstimate = 1000, VelocityEstimate = 100\<rparr>
       \<lparr>PositionEstimate = 2000, VelocityEstimate = 200\<rparr> 1)) \<and>
   \<not> 2000 < PositionEstimate (snd (AdjustNetworkParams True
       \<lparr>PositionEstimate = 1000, VelocityEstimate = 100\<rparr>
       \<lparr>PositionEstimate = 2000, VelocityEstimate = 200\<rparr> 1))"
  by (simp add: AdjustNetworkParams_one_epoch)

section \<open>Termination fees of one miner: a target epoch in the future\<close>

text \<open>None of the loops consults the lookup of historical tipsets.\<close>

lemma fee_loop_lookup [simp]:
  "fee_loop (env\<lparr>ChainGetTipSetByHeight := h\<rparr>) nv rw pw mi T sectors st
     = fee_loop env nv rw pw mi T sectors st"
proof (induction sectors arbitrary: st)
  case Nil
  show ?case by simp
next
  case (Cons s sectors)
  obtain tf ex srs where st: "st = (tf, ex, srs)" by (cases st)
  show ?case unfolding st by (simp add: Let_def Cons.IH split: sum.splits)
qed

lemma get_sectors_lookup [simp]:
  "get_sectors (env\<lparr>ChainGetTipSetByHeight := h\<rparr>) mid tsk nums sectors
     = get_sectors env mid tsk nums sectors"
  by (induction nums arbitrary: sectors) (simp_all split: sum.splits)

lemma getNetworkParameters_lookup [simp]:
  "getNetworkParameters (env\<lparr>ChainGetTipSetByHeight := h\<rparr>) ts = getNetworkParameters env ts"
  by (simp add: getNetworkParameters_def cong: sum.case_cong)

lemma projected_target:
  assumes "Height currentTs
           <s (if CalculationRequest.TargetEpoch req = 0 then Height currentTs
               else CalculationRequest.TargetEpoch req)"
  shows "CalculationRequest.TargetEpoch req \<noteq> 0"
    and "Height currentTs <s CalculationRequest.TargetEpoch req"
proof -
  show nz: "CalculationRequest.TargetEpoch req \<noteq> 0"
    using assms by (auto simp: word_sless_alt)
  with assms show "Height currentTs <s CalculationRequest.TargetEpoch req"
    by simp
qed

lemma projected_lookup:
  assumes "ChainHead env = Inr currentTs"
    and "Height currentTs
           <s (if CalculationRequest.TargetEpoch req = 0 then Height currentTs
               else CalculationRequest.TargetEpoch req)"
  shows "CalculateTerminationFee (env\<lparr>ChainGetTipSetByHeight := h\<rparr>) req
           = CalculateTerminationFee env req"
proof (cases "address_NewFromString env (CalculationRequest.MinerID req)")
  case (Inl err)
  then show ?thesis by (simp add: CalculateTerminationFee_def)
next
  case (Inr mid)
  then show ?thesis
    by (simp add: CalculateTerminationFee_def Let_def assms(1) projected_target [OF assms(2)]
          split: sum.splits option.splits)
qed

lemma projected_fields:
  assumes "address_NewFromString env (CalculationRequest.MinerID req) = Inr mid"
    and "ChainHead env = Inr currentTs"
    and "Height currentTs
           <s (if CalculationRequest.TargetEpoch req = 0 then Height currentTs
               else CalculationRequest.TargetEpoch req)"
  shows "IsEstimate (CalculateTerminationFee env req)"
    and "CurrentEpoch (CalculateTerminationFee env req) = Height currentTs"
    and "CalculationResult.TargetEpoch (CalculateTerminationFee env req)
           = CalculationRequest.TargetEpoch req"
  by (simp_all add: CalculateTerminationFee_def Let_def assms(1,2) projected_target [OF assms(3)]
        split: sum.splits option.splits)

text \<open>
  The two signals that \<open>AdjustNetworkParams\<close> would return for the example, 100000
  epochs ahead, on either build, and the fees that the loop computes from them.
\<close>

lemma AdjustNetworkParams_example_builds:
  "AdjustNetworkParams False \<lparr>PositionEstimate = 1000, VelocityEstimate = 100\<rparr>
     \<lparr>PositionEstimate = 2000, VelocityEstimate = 200\<rparr> (2500000 - 2400000) =
   (\<lparr>PositionEstimate = 100, VelocityEstimate = 10\<rparr>,
    \<lparr>PositionEstimate = 22000, VelocityEstimate = 2200\<rparr>)"
  "AdjustNetworkParams True \<lparr>PositionEstimate = 1000, VelocityEstimate = 100\<rparr>
     \<lparr>PositionEstimate = 2000, VelocityEstimate = 200\<rparr> (2500000 - 2400000) =
   (\<lparr>PositionEstimate = 100, VelocityEstimate = 10\<rparr>,
    \<lparr>PositionEstimate = 22000, VelocityEstimate = 2200\<rparr>)"
  by code_simp+

lemma AdjustNetworkParams_example:
  "AdjustNetworkParams fused \<lparr>PositionEstimate = 1000, VelocityEstimate = 100\<rparr>
     \<lparr>PositionEstimate = 2000, VelocityEstimate = 200\<rparr> (2500000 - 2400000) =
   (\<lparr>PositionEstimate = 100, VelocityEstimate = 10\<rparr>,
    \<lparr>PositionEstimate = 22000, VelocityEstimate = 2200\<rparr>)"
  by (cases fused) (simp_all only: AdjustNetworkParams_example_builds)

lemma fee_loop_example:
  "fee_loop example_env 25 \<lparr>PositionEstimate = 1000, VelocityEstimate = 100\<rparr>
     \<lparr>PositionEstimate = 2000, VelocityEstimate = 200\<rparr> \<lparr>SectorSize = 34359738368\<rparr> 2500000
     example_sectors (0, 0, []) =
   Inr (324, 1,
     [\<lparr>SectorResult.SectorNumber = 1, Fee = 0, Age = 0, IsExpired = True,
       ExpiredDays = EpochsToDays 500000\<rparr>,
      \<lparr>SectorResult.SectorNumber = 2, Fee = 152, Age = 500000, IsExpired = False,
       ExpiredDays = 0\<rparr>,
      \<lparr>SectorResult.SectorNumber = 3, Fee = 172, Age = 200000, IsExpired = False,
       ExpiredDays = 0\<rparr>])"
  by (simp add: example_eval)

lemma fee_loop_example_projected:
  "fee_loop example_env 25 \<lparr>PositionEstimate = 100, VelocityEstimate = 10\<rparr>
     \<lparr>PositionEstimate = 22000, VelocityEstimate = 2200\<rparr> \<lparr>SectorSize = 34359738368\<rparr> 2500000
     example_sectors (0, 0, []) =
   Inr (260, 1,
     [\<lparr>SectorResult.SectorNumber = 1, Fee = 0, Age = 0, IsExpired = True,
       ExpiredDays = EpochsToDays 500000\<rparr>,
      \<lparr>SectorResult.SectorNumber = 2, Fee = 120, Age = 500000, IsExpired = False,
       ExpiredDays = 0\<rparr>,
      \<lparr>SectorResult.SectorNumber = 3, Fee = 140, Age = 200000, IsExpired = False,
       ExpiredDays = 0\<rparr>])"
  by (simp add: example_eval)

text \<open>
  C1, as the specification has it, would make the fees of a target epoch in the future
  those of the projected signals. In the example the head of the chain is at epoch
  2400000 and the target 100000 epochs later: the projection of the two signals read
  at the head is (100, 22000) and the fees from it add up to 260 on either build,
  but \<open>CalculateTerminationFee\<close> returns 324, the sum of the fees from the signals
  (1000, 2000) as they were read.
\<close>

theorem CalculateTerminationFee_projected_counterexample:
  "IsEstimate (CalculateTerminationFee example_env example_request) \<and>
   CalculationResult.Error (CalculateTerminationFee example_env example_request) = [] \<and>
   getNetworkParameters example_env \<lparr>Height = 2400000, Key = 1\<rparr> =
     Inr (\<lparr>PositionEstimate = 1000, VelocityEstimate = 100\<rparr>,
          \<lparr>PositionEstimate = 2000, VelocityEstimate = 200\<rparr>) \<and>
   CalculationResult.TotalFee (CalculateTerminationFee example_env example_request) = 324 \<and>
   map Fee (SectorResults (CalculateTerminationFee example_env example_request))
     = [0, 152, 172] \<and>
   (\<forall>fused rewardSmoothed powerSmoothed.
      AdjustNetworkParams fused \<lparr>PositionEstimate = 1000, VelocityEstimate = 100\<rparr>
        \<lparr>PositionEstimate = 2000, VelocityEstimate = 200\<rparr> (2500000 - 2400000)
        = (rewardSmoothed, powerSmoothed) \<longleftrightarrow>
      rewardSmoothed = \<lparr>PositionEstimate = 100, VelocityEstimate = 10\<rparr> \<and>
      powerSmoothed = \<lparr>PositionEstimate = 22000, VelocityEstimate = 2200\<rparr>) \<and>
   (\<exists>expiredSectors sectorResults.
      fee_loop example_env 25 \<lparr>PositionEstimate = 100, VelocityEstimate = 10\<rparr>
        \<lparr>PositionEstimate = 22000, VelocityEstimate = 2200\<rparr> \<lparr>SectorSize = 34359738368\<rparr>
        2500000 example_sectors (0, 0, []) = Inr (260, expiredSectors, sectorResults) \<and>
      map Fee sectorResults = [0, 120, 140])"
proof -
  have "\<exists>expiredSectors sectorResults.
      fee_loop example_env 25 \<lparr>PositionEstimate = 100, VelocityEstimate = 10\<rparr>
        \<lparr>PositionEstimate = 22000, VelocityEstimate = 2200\<rparr> \<lparr>SectorSize = 34359738368\<rparr>
        2500000 example_sectors (0, 0, []) = Inr (260, expiredSectors, sectorResults) \<and>
      map Fee sectorResults = [0, 120, 140]"
    unfolding fee_loop_example_projected by simp
  moreover have "getNetworkParameters example_env \<lparr>Height = 2400000, Key = 1\<rparr> =
     Inr (\<lparr>PositionEstimate = 1000, VelocityEstimate = 100\<rparr>,
          \<lparr>PositionEstimate = 2000, VelocityEstimate = 200\<rparr>)"
    by (simp add: getNetworkParameters_def example_env_def)
  moreover have "\<forall>fused rewardSmoothed powerSmoothed.
      AdjustNetworkParams fused \<lparr>PositionEstimate = 1000, VelocityEstimate = 100\<rparr>
        \<lparr>PositionEstimate = 2000, VelocityEstimate = 200\<rparr> (2500000 - 2400000)
        = (rewardSmoothed, powerSmoothed) \<longleftrightarrow>
      rewardSmoothed = \<lparr>PositionEstimate = 100, VelocityEstimate = 10\<rparr> \<and>
      powerSmoothed = \<lparr>PositionEstimate = 22000, VelocityEstimate = 2200\<rparr>"
    unfolding AdjustNetworkParams_example by auto
  ultimately show ?thesis
    by (simp only: CalculateTerminationFee_example) simp
qed

text \<open>
  C1, amended. When the miner address parses, the head of the chain is read and the
  target epoch (the head's epoch instead of 0) is after the head's epoch,
  \<open>CalculateTerminationFee\<close> marks the result as an estimate, with the head's epoch as
  current epoch and the target epoch as given; its result does not depend on the
  lookup of historical tipsets; and when it reports no error, the network version, the
  miner information, the sectors and the two signals are those read at the head, and
  the total fee and the sector results are those of the loop run at the target epoch
  on the two signals exactly as they were read: no projection is applied to them.
\<close>

theorem CalculateTerminationFee_projected:
  assumes "address_NewFromString env (CalculationRequest.MinerID req) = Inr mid"
    and "ChainHead env = Inr currentTs"
    and "targetEpoch = (if CalculationRequest.TargetEpoch req = 0 then Height currentTs
                        else CalculationRequest.TargetEpoch req)"
    and "Height currentTs <s targetEpoch"
  shows "IsEstimate (CalculateTerminationFee env req) \<and>
    CurrentEpoch (CalculateTerminationFee env req) = Height currentTs \<and>
    CalculationResult.TargetEpoch (CalculateTerminationFee env req) = targetEpoch \<and>
    (\<forall>h. CalculateTerminationFee (env\<lparr>ChainGetTipSetByHeight := h\<rparr>) req
            = CalculateTerminationFee env req) \<and>
    (CalculationResult.Error (CalculateTerminationFee env req) = [] \<longrightarrow>
       (\<exists>nv minerInfo sectors rewardSmoothed powerSmoothed expiredSectors.
          StateNetworkVersion env (Key currentTs) = Inr nv \<and>
          StateMinerInfo env mid (Key currentTs) = Inr minerInfo \<and>
          (if SectorNumbers req = [] then
             (case StateMinerSectors env mid (Key currentTs) of
                Inl err \<Rightarrow> Inl (''failed to get sectors: '' @ err)
              | Inr sectors \<Rightarrow> Inr sectors)
           else get_sectors env mid (Key currentTs) (SectorNumbers req) []) = Inr sectors \<and>
          getNetworkParameters env currentTs = Inr (rewardSmoothed, powerSmoothed) \<and>
          fee_loop env nv rewardSmoothed powerSmoothed minerInfo targetEpoch sectors (0, 0, [])
            = Inr (CalculationResult.TotalFee (CalculateTerminationFee env req),
                   expiredSectors,
                   SectorResults (CalculateTerminationFee env req))))"
proof -
  let ?r = "CalculateTerminationFee env req"
  have lt: "Height currentTs
           <s (if CalculationRequest.TargetEpoch req = 0 then Height currentTs
               else CalculationRequest.TargetEpoch req)"
    using assms(3,4) by simp
  have T: "targetEpoch = CalculationRequest.TargetEpoch req"
    using assms(3) projected_target(1) [OF lt] by simp
  have a: "IsEstimate ?r" "CurrentEpoch ?r = Height currentTs"
    "CalculationResult.TargetEpoch ?r = targetEpoch"
    using projected_fields [OF assms(1,2) lt] by (simp_all add: T)
  have b: "\<forall>h. CalculateTerminationFee (env\<lparr>ChainGetTipSetByHeight := h\<rparr>) req = ?r"
    using projected_lookup [OF assms(2) lt] by simp
  have c: "\<exists>nv minerInfo sectors rewardSmoothed powerSmoothed expiredSectors.
          StateNetworkVersion env (Key currentTs) = Inr nv \<and>
          StateMinerInfo env mid (Key currentTs) = Inr minerInfo \<and>
          (if SectorNumbers req = [] then
             (case StateMinerSectors env mid (Key currentTs) of
                Inl err \<Rightarrow> Inl (''failed to get sectors: '' @ err)
              | Inr sectors \<Rightarrow> Inr sectors)
           else get_sectors env mid (Key currentTs) (SectorNumbers req) []) = Inr sectors \<and>
          getNetworkParameters env currentTs = Inr (rewardSmoothed, powerSmoothed) \<and>
          fee_loop env nv rewardSmoothed powerSmoothed minerInfo targetEpoch sectors (0, 0, [])
            = Inr (CalculationResult.TotalFee ?r, expiredSectors, SectorResults ?r)"
    if "CalculationResult.Error ?r = []"
  proof -
    from that obtain mid' currentTs' targetEpoch' ts nv minerInfo sectors rewardSmoothed
      powerSmoothed totalFee expiredSectors sectorResults
      where f: "address_NewFromString env (CalculationRequest.MinerID req) = Inr mid'"
        "ChainHead env = Inr currentTs'"
        "targetEpoch' = (if CalculationRequest.TargetEpoch req = 0 then Height currentTs'
                    else CalculationRequest.TargetEpoch req)"
        "(if Height currentTs' <s targetEpoch' then Inr currentTs'
          else ChainGetTipSetByHeight env targetEpoch') = Inr ts"
        "StateNetworkVersion env (Key ts) = Inr nv"
        "StateMinerInfo env mid' (Key ts) = Inr minerInfo"
        "(if SectorNumbers req = [] then
            (case StateMinerSectors env mid' (Key ts) of
               Inl err \<Rightarrow> Inl (''failed to get sectors: '' @ err)
             | Inr sectors \<Rightarrow> Inr sectors)
          else get_sectors env mid' (Key ts) (SectorNumbers req) []) = Inr sectors"
        "getNetworkParameters env ts = Inr (rewardSmoothed, powerSmoothed)"
        "fee_loop env nv rewardSmoothed powerSmoothed minerInfo targetEpoch' sectors (0, 0, [])
           = Inr (totalFee, expiredSectors, sectorResults)"
        and r: "CalculateTerminationFee env req =
           \<lparr>CalculationResult.MinerID = CalculationRequest.MinerID req,
            CalculationResult.TargetEpoch = targetEpoch',
            CurrentEpoch = Height currentTs', IsEstimate = Height currentTs' <s targetEpoch',
            CalculationResult.TotalSectors = int (length sectors),
            ActiveSectors = int (length sectors) - expiredSectors,
            ExpiredSectors = expiredSectors, CalculationResult.TotalFee = totalFee,
            SectorResults = sectorResults, CalculationResult.Error = []\<rparr>"
      by (rule CalculateTerminationFee_no_error)
    have m: "mid' = mid" using f(1) assms(1) by simp
    have h: "currentTs' = currentTs" using f(2) assms(2) by simp
    have t: "targetEpoch' = targetEpoch" using f(3) assms(3) h by simp
    have s: "ts = currentTs" using f(4) assms(4) h t by simp
    have tf: "CalculationResult.TotalFee ?r = totalFee" "SectorResults ?r = sectorResults"
      by (simp_all add: r)
    show ?thesis
      unfolding tf using f(5-9) unfolding m h t s by blast
  qed
  from a b c show ?thesis by blast
qed

theorem CalculateTerminationFee_projected_witness:
  "address_NewFromString example_env (CalculationRequest.MinerID example_request) = Inr 1234 \<and>
   ChainHead example_env = Inr \<lparr>Height = 2400000, Key = 1\<rparr> \<and>
   CalculationRequest.TargetEpoch example_request = 2500000 \<and>
   (2400000 :: ChainEpoch) <s 2500000 \<and>
   IsEstimate (CalculateTerminationFee example_env example_request) \<and>
   CurrentEpoch (CalculateTerminationFee example_env example_request) = 2400000 \<and>
   CalculationResult.TargetEpoch (CalculateTerminationFee example_env example_request)
     = 2500000 \<and>
   CalculateTerminationFee
     (example_env\<lparr>ChainGetTipSetByHeight := (\<lambda>h. Inl ''not found'')\<rparr>) example_request
     = CalculateTerminationFee example_env example_request \<and>
   CalculationResult.Error (CalculateTerminationFee example_env example_request) = [] \<and>
   (\<exists>expiredSectors.
      fee_loop example_env 25 \<lparr>PositionEstimate = 1000, VelocityEstimate = 100\<rparr>
        \<lparr>PositionEstimate = 2000, VelocityEstimate = 200\<rparr> \<lparr>SectorSize = 34359738368\<rparr>
        2500000 example_sectors (0, 0, [])
      = Inr (CalculationResult.TotalFee (CalculateTerminationFee example_env example_request),
             expiredSectors,
             SectorResults (CalculateTerminationFee example_env example_request)))"
proof -
  have h: "address_NewFromString example_env (CalculationRequest.MinerID example_request)
             = Inr 1234"
    "ChainHead example_env = Inr \<lparr>Height = 2400000, Key = 1\<rparr>"
    "CalculationRequest.TargetEpoch example_request = 2500000"
    "(2400000 :: ChainEpoch) <s 2500000"
    by (simp_all add: example_env_def example_request_def word_sless_alt)
  have e: "CalculationResult.Error (CalculateTerminationFee example_env example_request) = []"
    by (simp add: CalculateTerminationFee_example)
  have q: "StateNetworkVersion example_env (Suc 0) = Inr nv \<longleftrightarrow> nv = 25"
    "StateMinerInfo example_env 1234 (Suc 0) = Inr minerInfo
       \<longleftrightarrow> minerInfo = \<lparr>SectorSize = 34359738368\<rparr>"
    "StateMinerSectors example_env 1234 (Suc 0) = Inr example_sectors"
    "SectorNumbers example_request = []"
    "getNetworkParameters example_env \<lparr>Height = 2400000, Key = Suc 0\<rparr> = Inr (rw, pw) \<longleftrightarrow>
       rw = \<lparr>PositionEstimate = 1000, VelocityEstimate = 100\<rparr> \<and>
       pw = \<lparr>PositionEstimate = 2000, VelocityEstimate = 200\<rparr>"
    for nv minerInfo rw pw
    by (auto simp: example_env_def example_request_def getNetworkParameters_def)
  from CalculateTerminationFee_projected
    [of example_env example_request 1234 "\<lparr>Height = 2400000, Key = 1\<rparr>" 2500000]
  show ?thesis
    unfolding h by (simp add: h e q)
qed

section \<open>Termination strategy of one miner: what the loop leaves in its variables\<close>

text \<open>A sector without a price, and a sector that has expired, leave the variables as they are.\<close>

lemma strategy_loop_filter:
  "strategy_loop env nv rw pw mi task th sectors st =
   strategy_loop env nv rw pw mi task th
     (filter (\<lambda>s. \<not> Expiration s \<le>s MinerStrategyTask.TerminationEpoch task \<and>
                  priced env nv rw pw mi (MinerStrategyTask.TerminationEpoch task) s) sectors) st"
proof (induction sectors arbitrary: st)
  case Nil
  show ?case by simp
next
  case (Cons s sectors)
  obtain tf ef tc ec sd where st: "st = (tf, ef, tc, ec, sd)" by (cases st)
  show ?case unfolding st
    by (simp add: priced_def Let_def Cons.IH split: sum.splits)
qed

text \<open>
  The loop appends one entry for each sector that has not expired and has a price, in
  the order of the sectors, with the action that the threshold decides; the counts and
  the fees grow by the entries of each action.
\<close>

lemma strategy_loop_details:
  "strategy_loop env nv rw pw mi task th sectors (tf, ef, tc, ec, sd) = (tf', ef', tc', ec', sd')
   \<Longrightarrow> \<exists>new. sd' = sd @ new \<and>
     list_all2
       (\<lambda>s d. SectorStrategy.SectorNumber d = SectorOnChainInfo.SectorNumber s \<and>
          ExpirationEpoch d = Expiration s \<and>
          Strategy d =
            (if MinerStrategyTask.ExpirationThreshold task = 0 then ''terminate''
             else if Expiration s - MinerStrategyTask.TerminationEpoch task \<le>s th then ''expire''
             else ''terminate''))
       (filter (\<lambda>s. \<not> Expiration s \<le>s MinerStrategyTask.TerminationEpoch task \<and>
                    priced env nv rw pw mi (MinerStrategyTask.TerminationEpoch task) s) sectors)
       new"
proof (induction sectors arbitrary: tf ef tc ec sd)
  case Nil
  then show ?case by simp
next
  case (Cons s sectors)
  show ?case
  proof (cases "\<not> Expiration s \<le>s MinerStrategyTask.TerminationEpoch task \<and>
                 priced env nv rw pw mi (MinerStrategyTask.TerminationEpoch task) s")
    case False
    then have "strategy_loop env nv rw pw mi task th (s # sectors) (tf, ef, tc, ec, sd)
                 = strategy_loop env nv rw pw mi task th sectors (tf, ef, tc, ec, sd)"
      by (auto simp: priced_def Let_def split: sum.splits)
    with Cons.prems have "strategy_loop env nv rw pw mi task th sectors (tf, ef, tc, ec, sd)
                 = (tf', ef', tc', ec', sd')"
      by simp
    from Cons.IH [OF this] False show ?thesis by auto
  next
    case True
    then obtain faultFee termFee where
      "PledgePenaltyForContinuedFault env nv
         \<lparr>PositionEstimate = PositionEstimate rw, VelocityEstimate = VelocityEstimate rw\<rparr>
         \<lparr>PositionEstimate = PositionEstimate pw, VelocityEstimate = VelocityEstimate pw\<rparr>
         (QAPowerForSector env (SectorSize mi) s) = Inr faultFee"
      "PledgePenaltyForTermination env nv (InitialPledge s)
         (MinerStrategyTask.TerminationEpoch task - Activation s) faultFee = Inr termFee"
      by (auto simp: priced_def split: sum.splits)
    with Cons.prems True show ?thesis
      by (auto simp: Let_def split: if_splits dest!: Cons.IH)
  qed
qed

lemma strategy_loop_counts:
  "strategy_loop env nv rw pw mi task th sectors (tf, ef, tc, ec, sd) = (tf', ef', tc', ec', sd')
   \<Longrightarrow> tc' - int (length (filter (\<lambda>d. Strategy d = ''terminate'') sd'))
         = tc - int (length (filter (\<lambda>d. Strategy d = ''terminate'') sd)) \<and>
       ec' - int (length (filter (\<lambda>d. Strategy d = ''expire'') sd'))
         = ec - int (length (filter (\<lambda>d. Strategy d = ''expire'') sd))"
proof (induction sectors arbitrary: tf ef tc ec sd)
  case Nil
  then show ?case by simp
next
  case (Cons s sectors)
  from Cons.prems show ?case
    by (auto simp: Let_def split: if_splits sum.splits dest!: Cons.IH)
qed

lemma strategy_loop_fees:
  "strategy_loop env nv rw pw mi task th sectors (tf, ef, tc, ec, sd) = (tf', ef', tc', ec', sd')
   \<Longrightarrow> tf' - sum_list (map SectorStrategy.TerminationFee
                  (filter (\<lambda>d. Strategy d = ''terminate'') sd'))
         = tf - sum_list (map SectorStrategy.TerminationFee
                  (filter (\<lambda>d. Strategy d = ''terminate'') sd)) \<and>
       ef' - sum_list (map SectorStrategy.ExpirationFee
                  (filter (\<lambda>d. Strategy d = ''expire'') sd'))
         = ef - sum_list (map SectorStrategy.ExpirationFee
                  (filter (\<lambda>d. Strategy d = ''expire'') sd))"
proof (induction sectors arbitrary: tf ef tc ec sd)
  case Nil
  then show ?case by simp
next
  case (Cons s sectors)
  from Cons.prems show ?case
    by (auto simp: Let_def split: if_splits sum.splits dest!: Cons.IH)
qed

text \<open>
  A successful result comes from the one path on which every query succeeded; the
  loop over no sector leaves the variables at zero, as the early return does.
\<close>

lemma calculateMinerStrategy_success:
  assumes "Status (calculateMinerStrategy env task) = ''success''"
  obtains mid currentTs ts nv minerInfo rewardSmoothed powerSmoothed sectors
    terminationFee expirationFee terminateCount expireCount sectorDetails
  where
    "address_NewFromString env (MinerStrategyTask.MinerID task) = Inr mid"
    "ChainHead env = Inr currentTs"
    "(if Height currentTs <s MinerStrategyTask.TerminationEpoch task then Inr currentTs
      else ChainGetTipSetByHeight env (MinerStrategyTask.TerminationEpoch task)) = Inr ts"
    "StateNetworkVersion env (Key ts) = Inr nv"
    "StateMinerInfo env mid (Key ts) = Inr minerInfo"
    "getNetworkParameters env ts = Inr (rewardSmoothed, powerSmoothed)"
    "StateMinerSectors env mid (Key ts) = Inr sectors"
    "strategy_loop env nv rewardSmoothed powerSmoothed minerInfo task
       (MinerStrategyTask.ExpirationThreshold task * 2880) sectors (0, 0, 0, 0, [])
       = (terminationFee, expirationFee, terminateCount, expireCount, sectorDetails)"
    "calculateMinerStrategy env task =
       \<lparr>Index = MinerStrategyTask.Index task, MinerID = MinerStrategyTask.MinerID task,
        TerminationEpoch = MinerStrategyTask.TerminationEpoch task,
        ExpirationThreshold = MinerStrategyTask.ExpirationThreshold task,
        TotalSectors = int (length sectors), TerminateSectors = terminateCount,
        ExpireSectors = expireCount, TerminationFee = terminationFee,
        ExpirationFee = expirationFee, TotalFee = terminationFee + expirationFee,
        SectorDetails = sectorDetails, Status = ''success'', Error = []\<rparr>"
proof -
  note d = calculateMinerStrategy_def Let_def failed_def
  obtain mid where 1: "address_NewFromString env (MinerStrategyTask.MinerID task) = Inr mid"
    using assms by (cases "address_NewFromString env (MinerStrategyTask.MinerID task)")
      (simp_all add: d)
  obtain currentTs where 2: "ChainHead env = Inr currentTs"
    using assms 1 by (cases "ChainHead env") (simp_all add: d)
  obtain ts where 3:
    "(if Height currentTs <s MinerStrategyTask.TerminationEpoch task then Inr currentTs
      else ChainGetTipSetByHeight env (MinerStrategyTask.TerminationEpoch task)) = Inr ts"
    using assms 1 2
    by (cases "(if Height currentTs <s MinerStrategyTask.TerminationEpoch task then Inr currentTs
      else ChainGetTipSetByHeight env (MinerStrategyTask.TerminationEpoch task))")
      (simp_all add: d)
  obtain nv where 4: "StateNetworkVersion env (Key ts) = Inr nv"
    using assms 1 2 3 by (cases "StateNetworkVersion env (Key ts)") (simp_all add: d)
  obtain minerAct where 5: "StateGetActor env mid (Key ts) = Inr minerAct"
    using assms 1 2 3 4 by (cases "StateGetActor env mid (Key ts)") (simp_all add: d)
  obtain minerInfo where 6: "StateMinerInfo env mid (Key ts) = Inr minerInfo"
    using assms 1 2 3 4 5 by (cases "StateMinerInfo env mid (Key ts)") (simp_all add: d)
  obtain minerVersion where 7: "GetActorMetaByCode env (Code minerAct) = Some minerVersion"
    using assms 1 2 3 4 5 6 by (cases "GetActorMetaByCode env (Code minerAct)") (simp_all add: d)
  have 8: "\<not> minerVersion < 16"
    using assms 1 2 3 4 5 6 7 by (cases "minerVersion < 16") (simp_all add: d)
  obtain rewardSmoothed powerSmoothed where
    9: "getNetworkParameters env ts = Inr (rewardSmoothed, powerSmoothed)"
    using assms 1 2 3 4 5 6 7 8 by (cases "getNetworkParameters env ts") (auto simp add: d)
  obtain sectors where 10: "StateMinerSectors env mid (Key ts) = Inr sectors"
    using assms 1 2 3 4 5 6 7 8 9 by (cases "StateMinerSectors env mid (Key ts)") (simp_all add: d)
  obtain terminationFee expirationFee terminateCount expireCount sectorDetails where
    11: "strategy_loop env nv rewardSmoothed powerSmoothed minerInfo task
       (MinerStrategyTask.ExpirationThreshold task * 2880) sectors (0, 0, 0, 0, [])
       = (terminationFee, expirationFee, terminateCount, expireCount, sectorDetails)"
    by (cases "strategy_loop env nv rewardSmoothed powerSmoothed minerInfo task
       (MinerStrategyTask.ExpirationThreshold task * 2880) sectors (0, 0, 0, 0, [])")
  have "calculateMinerStrategy env task =
       \<lparr>Index = MinerStrategyTask.Index task, MinerID = MinerStrategyTask.MinerID task,
        TerminationEpoch = MinerStrategyTask.TerminationEpoch task,
        ExpirationThreshold = MinerStrategyTask.ExpirationThreshold task,
        TotalSectors = int (length sectors), TerminateSectors = terminateCount,
        ExpireSectors = expireCount, TerminationFee = terminationFee,
        ExpirationFee = expirationFee, TotalFee = terminationFee + expirationFee,
        SectorDetails = sectorDetails, Status = ''success'', Error = []\<rparr>"
  proof (cases "sectors = []")
    case True
    with 11 have "terminationFee = 0" "expirationFee = 0" "terminateCount = 0" "expireCount = 0"
      "sectorDetails = []" by simp_all
    with True 1 2 3 4 5 6 7 8 9 10 show ?thesis by (simp add: d)
  next
    case False
    with 1 2 3 4 5 6 7 8 9 10 11 show ?thesis by (simp add: d)
  qed
  with that [OF 1 2 3 4 6 9 10 11] show thesis .
qed

section \<open>The operations on the small chain state\<close>

lemma div64_numeral_example: "div64 10000 2880 = 3" "div64 1000000 2880 = 347"
  by (simp_all add: div64_def signed_divide_int_def)

lemmas strategy_eval =
  calculateMinerStrategy_def example_eval unsupported_env_def empty_env_def

lemma calculateMinerStrategy_example:
  "calculateMinerStrategy example_env example_task =
     \<lparr>Index = 0, MinerID = ''f01234'', TerminationEpoch = 2500000, ExpirationThreshold = 7,
      TotalSectors = 3, TerminateSectors = 1, ExpireSectors = 1, TerminationFee = 172,
      ExpirationFee = 96, TotalFee = 268,
      SectorDetails =
        [\<lparr>SectorStrategy.SectorNumber = 2, ExpirationEpoch = 2510000,
          RemainingDays = EpochsToDays 10000, Strategy = ''expire'',
          SectorStrategy.TerminationFee = 152, DailyFaultFee = 32,
          SectorStrategy.ExpirationFee = 96, RecommendedFee = 96\<rparr>,
         \<lparr>SectorStrategy.SectorNumber = 3, ExpirationEpoch = 3500000,
          RemainingDays = EpochsToDays 1000000, Strategy = ''terminate'',
          SectorStrategy.TerminationFee = 172, DailyFaultFee = 32,
          SectorStrategy.ExpirationFee = 11104, RecommendedFee = 172\<rparr>],
      Status = ''success'', Error = []\<rparr>"
  by (simp add: strategy_eval div64_numeral_example)

lemma calculateMinerStrategy_unsupported:
  "calculateMinerStrategy unsupported_env example_task =
     \<lparr>Index = 0, MinerID = ''f01234'', TerminationEpoch = 2500000, ExpirationThreshold = 7,
      TotalSectors = 3, TerminateSectors = 0, ExpireSectors = 0, TerminationFee = 0,
      ExpirationFee = 0, TotalFee = 0, SectorDetails = [],
      Status = ''success'', Error = []\<rparr>"
  by (simp add: strategy_eval)

lemma calculateMinerStrategy_empty:
  "calculateMinerStrategy empty_env example_task =
     \<lparr>Index = 0, MinerID = ''f01234'', TerminationEpoch = 2500000, ExpirationThreshold = 7,
      TotalSectors = 0, TerminateSectors = 0, ExpireSectors = 0, TerminationFee = 0,
      ExpirationFee = 0, TotalFee = 0, SectorDetails = [],
      Status = ''success'', Error = []\<rparr>"
  by (simp add: strategy_eval)

lemma calculateMinerStrategy_overflow:
  "calculateMinerStrategy example_env
     (example_task\<lparr>MinerStrategyTask.ExpirationThreshold := 4611686018427387904\<rparr>) =
     \<lparr>Index = 0, MinerID = ''f01234'', TerminationEpoch = 2500000,
      ExpirationThreshold = 4611686018427387904,
      TotalSectors = 3, TerminateSectors = 2, ExpireSectors = 0, TerminationFee = 324,
      ExpirationFee = 0, TotalFee = 324,
      SectorDetails =
        [\<lparr>SectorStrategy.SectorNumber = 2, ExpirationEpoch = 2510000,
          RemainingDays = EpochsToDays 10000, Strategy = ''terminate'',
          SectorStrategy.TerminationFee = 152, DailyFaultFee = 32,
          SectorStrategy.ExpirationFee = 96, RecommendedFee = 152\<rparr>,
         \<lparr>SectorStrategy.SectorNumber = 3, ExpirationEpoch = 3500000,
          RemainingDays = EpochsToDays 1000000, Strategy = ''terminate'',
          SectorStrategy.TerminationFee = 172, DailyFaultFee = 32,
          SectorStrategy.ExpirationFee = 11104, RecommendedFee = 172\<rparr>],
      Status = ''success'', Error = []\<rparr>"
  by (simp add: strategy_eval div64_numeral_example)

lemma CalculateTerminationFee_unsupported:
  "CalculateTerminationFee unsupported_env example_request =
     \<lparr>CalculationResult.MinerID = ''f01234'', CalculationResult.TargetEpoch = 2500000,
      CurrentEpoch = 2400000, IsEstimate = True, CalculationResult.TotalSectors = 3,
      ActiveSectors = 0, ExpiredSectors = 0, CalculationResult.TotalFee = 0,
      SectorResults = [],
      CalculationResult.Error = ''failed to calculate fault fee: unsupported network version''\<rparr>"
  by (simp add: CalculateTerminationFee_def strategy_eval)

section \<open>A penalty function that fails\<close>

text \<open>The loop of \<open>CalculateTerminationFee\<close> stops at the first sector without a price.\<close>

lemma fee_loop_unpriced:
  assumes "s \<in> set sectors" "\<not> Expiration s \<le>s T" "\<not> priced env nv rw pw mi T s"
  shows "\<exists>err. fee_loop env nv rw pw mi T sectors st
                  = Inl (''failed to calculate fault fee: '' @ err) \<or>
               fee_loop env nv rw pw mi T sectors st
                  = Inl (''failed to calculate termination fee: '' @ err)"
  using assms(1)
proof (induction sectors arbitrary: st)
  case Nil
  then show ?case by simp
next
  case (Cons x sectors)
  obtain tf ex srs where st: "st = (tf, ex, srs)" by (cases st)
  show ?case
  proof (cases "Expiration x \<le>s T")
    case True
    with assms(2) have "x \<noteq> s" by auto
    with Cons.prems have "s \<in> set sectors" by simp
    from Cons.IH [OF this] True show ?thesis unfolding st by (simp add: Let_def)
  next
    case False
    show ?thesis
    proof (cases "priced env nv rw pw mi T x")
      case True
      with assms(3) have "x \<noteq> s" by auto
      with Cons.prems have "s \<in> set sectors" by simp
      from Cons.IH [OF this] True False show ?thesis unfolding st
        by (auto simp: priced_def Let_def split: sum.splits)
    next
      case unpriced: False
      with False show ?thesis unfolding st
        by (auto simp: priced_def Let_def split: sum.splits)
    qed
  qed
qed

lemma length_filter_less:
  assumes "s \<in> set xs" "P s" "\<not> Q s"
  shows "length (filter (\<lambda>x. P x \<and> Q x) xs) < length (filter P xs)"
  using assms(1)
proof (induction xs)
  case Nil
  then show ?case by simp
next
  case (Cons x xs)
  have le: "length (filter (\<lambda>x. P x \<and> Q x) xs) \<le> length (filter P xs)"
    by (induction xs) auto
  show ?case
  proof (cases "x = s")
    case True
    with assms(2,3) le show ?thesis by simp
  next
    case False
    with Cons.prems have "s \<in> set xs" by simp
    from Cons.IH [OF this] show ?thesis by auto
  qed
qed

lemma list_all2_setD:
  "list_all2 R xs ys \<Longrightarrow> y \<in> set ys \<Longrightarrow> \<exists>x\<in>set xs. R x y"
  by (induction rule: list_all2_induct) auto

lemma strategy_loop_length:
  assumes "strategy_loop env nv rw pw mi task th sectors (0, 0, 0, 0, []) = (tf, ef, tc, ec, sd)"
  shows "length sd =
    length (filter (\<lambda>s. \<not> Expiration s \<le>s MinerStrategyTask.TerminationEpoch task \<and>
                    priced env nv rw pw mi (MinerStrategyTask.TerminationEpoch task) s) sectors)"
    and "tc + ec = int (length sd)"
proof -
  from strategy_loop_details [OF assms] obtain new where
    n: "sd = new" and
    l: "list_all2
       (\<lambda>s d. SectorStrategy.SectorNumber d = SectorOnChainInfo.SectorNumber s \<and>
          ExpirationEpoch d = Expiration s \<and>
          Strategy d =
            (if MinerStrategyTask.ExpirationThreshold task = 0 then ''terminate''
             else if Expiration s - MinerStrategyTask.TerminationEpoch task \<le>s th then ''expire''
             else ''terminate''))
       (filter (\<lambda>s. \<not> Expiration s \<le>s MinerStrategyTask.TerminationEpoch task \<and>
                    priced env nv rw pw mi (MinerStrategyTask.TerminationEpoch task) s) sectors)
       new"
    by auto
  from l show "length sd =
    length (filter (\<lambda>s. \<not> Expiration s \<le>s MinerStrategyTask.TerminationEpoch task \<and>
                    priced env nv rw pw mi (MinerStrategyTask.TerminationEpoch task) s) sectors)"
    unfolding n by (simp add: list_all2_lengthD)
  have "\<forall>d\<in>set sd. Strategy d = ''terminate'' \<or> Strategy d = ''expire''"
  proof
    fix d
    assume "d \<in> set sd"
    then have "d \<in> set new" by (simp add: n)
    from list_all2_setD [OF l this]
    show "Strategy d = ''terminate'' \<or> Strategy d = ''expire''"
      by (auto split: if_splits)
  qed
  then have "\<forall>d\<in>set sd. (Strategy d = ''expire'') = (\<not> Strategy d = ''terminate'')"
    by auto
  then have "filter (\<lambda>d. Strategy d = ''expire'') sd
               = filter (\<lambda>d. \<not> Strategy d = ''terminate'') sd"
    by (intro filter_cong) auto
  then have "length (filter (\<lambda>d. Strategy d = ''terminate'') sd)
               + length (filter (\<lambda>d. Strategy d = ''expire'') sd) = length sd"
    by (simp add: sum_length_filter_compl)
  with strategy_loop_counts [OF assms] show "tc + ec = int (length sd)"
    by simp
qed

text \<open>The result of \<open>calculateMinerStrategy\<close> when every query succeeds.\<close>

lemma calculateMinerStrategy_queries:
  assumes "address_NewFromString env (MinerStrategyTask.MinerID task) = Inr mid"
    and "ChainHead env = Inr currentTs"
    and "(if Height currentTs <s MinerStrategyTask.TerminationEpoch task then Inr currentTs
          else ChainGetTipSetByHeight env (MinerStrategyTask.TerminationEpoch task)) = Inr ts"
    and "StateNetworkVersion env (Key ts) = Inr nv"
    and "StateGetActor env mid (Key ts) = Inr minerAct"
    and "StateMinerInfo env mid (Key ts) = Inr minerInfo"
    and "GetActorMetaByCode env (Code minerAct) = Some minerVersion"
    and "\<not> minerVersion < 16"
    and "getNetworkParameters env ts = Inr (rewardSmoothed, powerSmoothed)"
    and "StateMinerSectors env mid (Key ts) = Inr sectors"
    and "strategy_loop env nv rewardSmoothed powerSmoothed minerInfo task
       (MinerStrategyTask.ExpirationThreshold task * 2880) sectors (0, 0, 0, 0, [])
       = (terminationFee, expirationFee, terminateCount, expireCount, sectorDetails)"
  shows "calculateMinerStrategy env task =
       \<lparr>Index = MinerStrategyTask.Index task, MinerID = MinerStrategyTask.MinerID task,
        TerminationEpoch = MinerStrategyTask.TerminationEpoch task,
        ExpirationThreshold = MinerStrategyTask.ExpirationThreshold task,
        TotalSectors = int (length sectors), TerminateSectors = terminateCount,
        ExpireSectors = expireCount, TerminationFee = terminationFee,
        ExpirationFee = expirationFee, TotalFee = terminationFee + expirationFee,
        SectorDetails = sectorDetails, Status = ''success'', Error = []\<rparr>"
proof (cases "sectors = []")
  case True
  with assms(11) have "terminationFee = 0" "expirationFee = 0" "terminateCount = 0"
    "expireCount = 0" "sectorDetails = []" by simp_all
  with True assms(1-10) show ?thesis
    by (simp add: calculateMinerStrategy_def Let_def)
next
  case False
  with assms show ?thesis
    by (simp add: calculateMinerStrategy_def Let_def)
qed




section \<open>Termination strategy of one miner: counts, fees and decisions\<close>



text \<open>64-bit arithmetic without overflow.\<close>

lemma sint_minus64:
  assumes "- 9223372036854775808 \<le> sint a - sint b" "sint a - sint b \<le> 9223372036854775807"
  shows "sint (a - b :: 64 word) = sint a - sint b"
proof -
  have "a - b = word_of_int (sint a - sint b)" by simp
  then show ?thesis using sint_word_of_int64 [OF assms] by simp
qed

lemma sint_times_2880:
  assumes "- 9223372036854775808 \<le> sint a * 2880" "sint a * 2880 \<le> 9223372036854775807"
  shows "sint (a * 2880 :: 64 word) = sint a * 2880"
proof -
  have "a * 2880 = word_of_int (sint a * 2880)" by simp
  then show ?thesis using sint_word_of_int64 [OF assms] by simp
qed

text \<open>The decision of the loop, read in the integers.\<close>

lemma decision_without_overflow:
  fixes T TE E :: "64 word"
  assumes "0 < sint T" "sint T * 2880 \<le> 9223372036854775807"
    and "\<not> E \<le>s TE" "sint E - sint TE \<le> 9223372036854775807"
  shows "E - TE \<le>s T * 2880 \<longleftrightarrow> sint E - sint TE \<le> sint T * 2880"
proof -
  from assms(3) have "sint TE < sint E" by (simp add: word_sle_eq)
  then have "sint (E - TE) = sint E - sint TE"
    using assms(4) by (intro sint_minus64) simp_all
  moreover have "sint (T * 2880) = sint T * 2880"
    using assms(1,2) by (intro sint_times_2880) simp_all
  ultimately show ?thesis by (simp add: word_sle_eq)
qed

lemma calculateMinerStrategy_threshold_0:
  "calculateMinerStrategy example_env
     (example_task\<lparr>MinerStrategyTask.ExpirationThreshold := 0\<rparr>) =
     \<lparr>Index = 0, MinerID = ''f01234'', TerminationEpoch = 2500000,
      ExpirationThreshold = 0,
      TotalSectors = 3, TerminateSectors = 2, ExpireSectors = 0, TerminationFee = 324,
      ExpirationFee = 0, TotalFee = 324,
      SectorDetails =
        [\<lparr>SectorStrategy.SectorNumber = 2, ExpirationEpoch = 2510000,
          RemainingDays = EpochsToDays 10000, Strategy = ''terminate'',
          SectorStrategy.TerminationFee = 152, DailyFaultFee = 32,
          SectorStrategy.ExpirationFee = 96, RecommendedFee = 152\<rparr>,
         \<lparr>SectorStrategy.SectorNumber = 3, ExpirationEpoch = 3500000,
          RemainingDays = EpochsToDays 1000000, Strategy = ''terminate'',
          SectorStrategy.TerminationFee = 172, DailyFaultFee = 32,
          SectorStrategy.ExpirationFee = 11104, RecommendedFee = 172\<rparr>],
      Status = ''success'', Error = []\<rparr>"
  by (simp add: strategy_eval div64_numeral_example)




section \<open>The summary of a batch without sectors\<close>


end
